theory Spec2Isabelle
  imports Complex_Main "HOL-Library.Sublist"
begin

section \<open>Roadmap layout: \<^verbatim>\<open>create_roadmap_from_excel.py\<close>\<close>

text \<open>
  The script reads six sheets of a workbook and draws one slide.  The slide is
  modelled as the list of shapes in the order in which the script adds them;
  every \<^verbatim>\<open>slide.shapes.add_...\<close> call appends one shape.  Lengths are
  python-pptx \<^verbatim>\<open>Length\<close> values, that is Python integers counting EMU
  (914400 to the inch).
\<close>

subsection \<open>Library functions the script calls\<close>

text \<open>
  Four computations are done by code outside the repository, three of them in
  binary floating point.  They are taken as parameters, so every theorem below
  holds for whatever these functions return.
  \<^item> \<open>Inches\<close>: \<^verbatim>\<open>pptx.util.Inches(v)\<close>, i.e. \<^verbatim>\<open>int(v * 914400)\<close>,
    for a number cell \<open>v\<close> of the workbook (type \<open>'r\<close>) as the row loops
    read it.  \<^verbatim>\<open>int\<close> raises \<^verbatim>\<open>ValueError\<close> on the NaN of a blank cell and
    \<^verbatim>\<open>OverflowError\<close> when the product is infinite; then the result is
    \<open>Inl\<close> of that exception.
  \<^item> \<open>Inches_np\<close>: the same call on the numpy scalar that
    \<^verbatim>\<open>.iloc[0]\<close> returns for a cell (line 304); a 64-bit integer product
    wraps around there, so its result is not assumed to be that of
    \<open>Inches\<close>.
  \<^item> \<open>int16\<close>: the builtin \<^verbatim>\<open>int(s, 16)\<close>; \<open>None\<close> when it raises
    \<^verbatim>\<open>ValueError\<close>.
  \<^item> \<open>Inches_uc\<close>: \<^verbatim>\<open>Inches(0.2 + i * 0.2)\<close> for the index \<open>i\<close> of a
    use case, a float computation on the loop counter, which is finite.
\<close>

datatype error = ValueError | IndexError | OverflowError | AttributeError

record 'r pylib =
  Inches :: "'r \<Rightarrow> error + int"
  Inches_np :: "'r \<Rightarrow> error + int"
  int16 :: "string \<Rightarrow> int option"
  Inches_uc :: "nat \<Rightarrow> int"

text \<open>
  \<^verbatim>\<open>Inches(c)\<close> and \<^verbatim>\<open>Pt(c)\<close> for the literals of the script, computed as
  \<^verbatim>\<open>int(c * 914400)\<close> and \<^verbatim>\<open>int(c * 12700)\<close> in double precision.
\<close>

abbreviation SLIDE_WIDTH :: int where "SLIDE_WIDTH \<equiv> 12191695"   \<comment> \<open>\<^verbatim>\<open>Inches(13.333)\<close>\<close>
abbreviation SLIDE_HEIGHT :: int where "SLIDE_HEIGHT \<equiv> 6858000"  \<comment> \<open>\<^verbatim>\<open>Inches(7.5)\<close>\<close>
abbreviation Pt_1 :: int where "Pt_1 \<equiv> 12700"
abbreviation Inches_0_02 :: int where "Inches_0_02 \<equiv> 18288"
abbreviation Inches_0_04 :: int where "Inches_0_04 \<equiv> 36576"
abbreviation Inches_0_1 :: int where "Inches_0_1 \<equiv> 91440"
abbreviation Inches_0_12 :: int where "Inches_0_12 \<equiv> 109728"
abbreviation Inches_0_14 :: int where "Inches_0_14 \<equiv> 128016"
abbreviation Inches_0_15 :: int where "Inches_0_15 \<equiv> 137160"
abbreviation Inches_0_2 :: int where "Inches_0_2 \<equiv> 182880"
abbreviation Inches_0_25 :: int where "Inches_0_25 \<equiv> 228600"
abbreviation Inches_0_3 :: int where "Inches_0_3 \<equiv> 274320"
abbreviation Inches_0_35 :: int where "Inches_0_35 \<equiv> 320040"
abbreviation Inches_0_4 :: int where "Inches_0_4 \<equiv> 365760"
abbreviation Inches_0_45 :: int where "Inches_0_45 \<equiv> 411480"
abbreviation Inches_0_5 :: int where "Inches_0_5 \<equiv> 457200"
abbreviation Inches_0_6 :: int where "Inches_0_6 \<equiv> 548640"
abbreviation Inches_0_7 :: int where "Inches_0_7 \<equiv> 640080"
abbreviation Inches_0_9 :: int where "Inches_0_9 \<equiv> 822960"
abbreviation Inches_0_95 :: int where "Inches_0_95 \<equiv> 868680"
abbreviation Inches_1_0 :: int where "Inches_1_0 \<equiv> 914400"
abbreviation Inches_1_2 :: int where "Inches_1_2 \<equiv> 1097280"
abbreviation Inches_1_3 :: int where "Inches_1_3 \<equiv> 1188720"
abbreviation Inches_1_4 :: int where "Inches_1_4 \<equiv> 1280160"
abbreviation Inches_1_5 :: int where "Inches_1_5 \<equiv> 1371600"
abbreviation Inches_1_6 :: int where "Inches_1_6 \<equiv> 1463040"
abbreviation Inches_1_7 :: int where "Inches_1_7 \<equiv> 1554480"
abbreviation Inches_2_0 :: int where "Inches_2_0 \<equiv> 1828800"
abbreviation Inches_2_3 :: int where "Inches_2_3 \<equiv> 2103120"
abbreviation Inches_2_4 :: int where "Inches_2_4 \<equiv> 2194560"
abbreviation Inches_3_4 :: int where "Inches_3_4 \<equiv> 3108960"
abbreviation Inches_4_2 :: int where "Inches_4_2 \<equiv> 3840480"

text \<open>
  \<^verbatim>\<open>Inches(0.35 + i * 0.15)\<close> for \<open>i = 0, 1, 2, 3\<close>; the float sums
  \<open>0.35 + 0.3\<close> and \<open>0.35 + 0.45\<close> fall just below \<open>0.65\<close> and \<open>0.8\<close>.
\<close>

definition Inches_uc_text :: "nat \<Rightarrow> int" where
  "Inches_uc_text i =
     (if i = 0 then 320040 else if i = 1 then 457200 else if i = 2 then 594359 else 731519)"

subsection \<open>Shapes\<close>

type_synonym rgb = "int \<times> int \<times> int"

datatype align = LEFT | CENTER

text \<open>
  The top of a vertically centred label is the Python float
  \<^verbatim>\<open>top + height/2 - Inches(0.1)\<close>.  \<open>Centred top height\<close> stands for that value;
  the division is not evaluated here.
\<close>

datatype coord = Emu int | Centred int int

datatype shape =
    Rectangle int int int int "rgb option" "rgb option"
      \<comment> \<open>left, top, width, height, fill colour, line colour\<close>
  | TextBox int coord int int string nat bool "rgb option" "rgb option" align bool
      \<comment> \<open>left, top, width, height, text, font size, bold, font colour, fill colour,
          alignment, italic\<close>
  | Triangle int int int rgb
      \<comment> \<open>left, top, size, colour\<close>

type_synonym slide = "shape list"

definition RGBColor :: "int \<Rightarrow> int \<Rightarrow> int \<Rightarrow> error + rgb" where
  \<comment> \<open>python-pptx rejects a component outside \<open>0..255\<close> with \<^verbatim>\<open>ValueError\<close>\<close>
  "RGBColor r g b =
     (if 0 \<le> r \<and> r \<le> 255 \<and> 0 \<le> g \<and> g \<le> 255 \<and> 0 \<le> b \<and> b \<le> 255
      then Inr (r, g, b) else Inl ValueError)"

text \<open>
  A value of the \<^verbatim>\<open>Settings\<close> sheet is whatever the cell holds: text, or
  something else (a number, a blank), which is given here by what \<^verbatim>\<open>str\<close>
  prints for it.  \<^verbatim>\<open>hex_to_rgb\<close> calls \<^verbatim>\<open>lstrip\<close> on its argument, which
  only text has.
\<close>

datatype pyval = Str string | Not_str string

fun py_str :: "pyval \<Rightarrow> string" where
  "py_str (Str s) = s"
| "py_str (Not_str s) = s"

definition hex_to_rgb :: "'r pylib \<Rightarrow> pyval \<Rightarrow> error + rgb" where
  "hex_to_rgb L v =
     (case v of
        Not_str s \<Rightarrow> Inl AttributeError
      | Str hex_color \<Rightarrow>
         (let hex_color = dropWhile (\<lambda>c. c = CHR ''#'') hex_color in
          case int16 L (take 2 hex_color) of
            None \<Rightarrow> Inl ValueError
          | Some r \<Rightarrow>
             (case int16 L (take 2 (drop 2 hex_color)) of
                None \<Rightarrow> Inl ValueError
              | Some g \<Rightarrow>
                 (case int16 L (take 2 (drop 4 hex_color)) of
                    None \<Rightarrow> Inl ValueError
                  | Some b \<Rightarrow> RGBColor r g b))))"

definition add_text_box ::
  "slide \<Rightarrow> int \<Rightarrow> coord \<Rightarrow> int \<Rightarrow> int \<Rightarrow> string \<Rightarrow> nat \<Rightarrow> bool \<Rightarrow> rgb option \<Rightarrow> rgb option
     \<Rightarrow> align \<Rightarrow> bool \<Rightarrow> slide" where
  "add_text_box slide left top' width height text font_size bold font_color fill_color
       alignment italic =
     slide @ [TextBox left top' width height text font_size bold font_color fill_color
                alignment italic]"

definition add_rectangle ::
  "slide \<Rightarrow> int \<Rightarrow> int \<Rightarrow> int \<Rightarrow> int \<Rightarrow> rgb option \<Rightarrow> rgb option \<Rightarrow> slide" where
  "add_rectangle slide left top' width height fill_color line_color =
     slide @ [Rectangle left top' width height fill_color line_color]"

definition add_triangle_milestone :: "slide \<Rightarrow> int \<Rightarrow> int \<Rightarrow> int \<Rightarrow> rgb \<Rightarrow> slide" where
  "add_triangle_milestone slide left top' size' color = slide @ [Triangle left top' size' color]"

subsection \<open>The workbook\<close>

text \<open>
  One record per sheet row, one field per column the sheet has.  The three
  measures in inches are cells of type \<open>'r\<close>, which the script hands to
  \<^verbatim>\<open>Inches\<close> as they are.  Identifiers are integers, and the year of a
  milestone is the integer that \<^verbatim>\<open>int(ms['Year'])\<close> returns.  A label, a
  flag or a colour is the string that \<^verbatim>\<open>str\<close> prints for the cell.  So a
  workbook with a sheet or a column missing, with a milestone whose year is
  blank (where \<^verbatim>\<open>int\<close> raises) or with a blank STC label (which Python
  compares unequal to itself) has no counterpart here.
\<close>

record 'r timeline_row =
  Year :: string
  Width :: 'r
  Is_Last_Column :: string

record goal_row =
  Goal_ID :: int
  Goal_Name :: string

record 'r rows_row =
  Row_ID :: int
  STC_Label :: string
  FTA_Label :: string
  Background_Color :: string
  r_Goal_ID :: int
  Row_Height :: 'r

record 'r milestone_row =
  ms_Row_ID :: int
  ms_Year :: int
  Vertical_Offset :: 'r
  Text :: string
  Is_Critical :: string

record usecase_row =
  Use_Case_ID :: string
  Description :: string
  Color :: string

record 'r data =
  d_settings :: "string \<rightharpoonup> pyval"
  d_timeline :: "'r timeline_row list"
  d_goals :: "goal_row list"
  d_rows :: "'r rows_row list"
  d_milestones :: "'r milestone_row list"
  d_usecases :: "usecase_row list"

subsection \<open>Python strings and dictionaries\<close>

definition lower_char :: "char \<Rightarrow> char" where
  "lower_char c =
     (let n = (of_char c :: nat) in if 65 \<le> n \<and> n \<le> 90 then char_of (n + 32) else c)"

definition lower :: "string \<Rightarrow> string" where
  \<comment> \<open>\<^verbatim>\<open>str.lower()\<close> on ASCII text; other bytes are left as they are\<close>
  "lower s = map lower_char s"

fun py_split :: "char \<Rightarrow> string \<Rightarrow> string list" where
  \<comment> \<open>\<^verbatim>\<open>s.split(sep)\<close> for a one-character separator\<close>
  "py_split sep [] = [[]]"
| "py_split sep (c # cs) =
     (if c = sep then [] # py_split sep cs
      else (case py_split sep cs of [] \<Rightarrow> [[c]] | p # ps \<Rightarrow> (c # p) # ps))"

fun str_nat :: "nat \<Rightarrow> string" where
  "str_nat n =
     (if n < 10 then [char_of (48 + n)] else str_nat (n div 10) @ [char_of (48 + n mod 10)])"

declare str_nat.simps [simp del]

definition str_int :: "int \<Rightarrow> string" where
  \<comment> \<open>\<^verbatim>\<open>str(n)\<close> for an integer\<close>
  "str_int n = (if n < 0 then CHR ''-'' # str_nat (nat (- n)) else str_nat (nat n))"

definition get :: "('k \<rightharpoonup> 'v) \<Rightarrow> 'k \<Rightarrow> 'v \<Rightarrow> 'v" where
  \<comment> \<open>\<^verbatim>\<open>d.get(key, default)\<close>\<close>
  "get d k dflt = (case d k of None \<Rightarrow> dflt | Some v \<Rightarrow> v)"

text \<open>
  \<^verbatim>\<open>year_positions\<close> is read in insertion order (\<^verbatim>\<open>.items()\<close>,
  \<^verbatim>\<open>list(.values())[-1]\<close>), so it is an association list: assigning to a key
  that is present replaces the value in place, a new key goes to the end.
\<close>

type_synonym year_dict = "(string \<times> int) list"

definition setitem :: "year_dict \<Rightarrow> string \<Rightarrow> int \<Rightarrow> year_dict" where
  "setitem d k v =
     (if k \<in> fst ` set d then map (\<lambda>(k', v'). if k' = k then (k', v) else (k', v')) d
      else d @ [(k, v)])"

definition last_value :: "year_dict \<Rightarrow> error + int" where
  \<comment> \<open>\<^verbatim>\<open>list(d.values())[-1]\<close>\<close>
  "last_value d = (case d of [] \<Rightarrow> Inl IndexError | _ \<Rightarrow> Inr (snd (last d)))"

subsection \<open>\<^verbatim>\<open>create_roadmap_from_data\<close>\<close>

record colors =
  navy :: rgb
  pink :: rgb
  purple :: rgb
  yellow :: rgb
  milestone :: rgb
  critical :: rgb
  near_term :: rgb
  mid_term :: rgb
  far_term :: rgb
  tan_box :: rgb

definition bind :: "error + 'a \<Rightarrow> ('a \<Rightarrow> error + 'b) \<Rightarrow> error + 'b" where
  \<comment> \<open>sequencing: an exception of the first computation ends the run\<close>
  "bind m f = (case m of Inl e \<Rightarrow> Inl e | Inr x \<Rightarrow> f x)"

definition parse_colors :: "'r pylib \<Rightarrow> (string \<rightharpoonup> pyval) \<Rightarrow> error + colors" where
  \<comment> \<open>lines 127--138, the dictionary \<^verbatim>\<open>colors\<close>\<close>
  "parse_colors L settings =
     bind (hex_to_rgb L (get settings ''Navy Color'' (Str ''1A1A4E''))) (\<lambda>c_navy.
     bind (hex_to_rgb L (get settings ''Pink Background'' (Str ''FFE0E0''))) (\<lambda>c_pink.
     bind (hex_to_rgb L (get settings ''Purple Background'' (Str ''E0D8F0''))) (\<lambda>c_purple.
     bind (hex_to_rgb L (get settings ''Yellow Background'' (Str ''FFF0D0''))) (\<lambda>c_yellow.
     bind (hex_to_rgb L (get settings ''Milestone Color'' (Str ''F0C040''))) (\<lambda>c_milestone.
     bind (hex_to_rgb L (get settings ''Critical Text Color'' (Str ''CC0000''))) (\<lambda>c_critical.
     bind (hex_to_rgb L (get settings ''Near Term Color'' (Str ''555555''))) (\<lambda>c_near_term.
     bind (hex_to_rgb L (get settings ''Mid Term Color'' (Str ''C8A080''))) (\<lambda>c_mid_term.
     bind (hex_to_rgb L (get settings ''Far Term Color'' (Str ''E8D8C8''))) (\<lambda>c_far_term.
     bind (hex_to_rgb L (Str ''C0A080'')) (\<lambda>c_tan_box.
     Inr \<lparr>navy = c_navy, pink = c_pink, purple = c_purple, yellow = c_yellow,
          milestone = c_milestone, critical = c_critical, near_term = c_near_term,
          mid_term = c_mid_term, far_term = c_far_term, tan_box = c_tan_box\<rparr>))))))))))"

definition bg_color_map :: "colors \<Rightarrow> (string \<rightharpoonup> rgb)" where
  "bg_color_map colors =
     [''pink'' \<mapsto> pink colors, ''purple'' \<mapsto> purple colors, ''yellow'' \<mapsto> yellow colors]"

abbreviation white :: rgb where "white \<equiv> (255, 255, 255)"

abbreviation header_top :: int where "header_top \<equiv> Inches_0_6"
abbreviation header_height :: int where "header_height \<equiv> Inches_0_3"
abbreviation left_margin :: int where "left_margin \<equiv> Inches_1_4"
abbreviation stc_width :: int where "stc_width \<equiv> Inches_0_4"
abbreviation fta_width :: int where "fta_width \<equiv> Inches_1_0"

definition year_key :: "string \<Rightarrow> string" where
  \<comment> \<open>line 190, \<^verbatim>\<open>year.split("-")[0]\<close>; the list that \<^verbatim>\<open>split\<close> returns is
      never empty\<close>
  "year_key year = hd (py_split CHR ''-'' year)"

text \<open>
  Lines 180--193: the header cell of each timeline row, and the dictionary
  from the text of the label before its first \<^verbatim>\<open>-\<close> to the left edge of the
  cell.  The state of the loop is the slide, \<^verbatim>\<open>x_pos\<close> and
  \<^verbatim>\<open>year_positions\<close>.  The column \<^verbatim>\<open>Is Last Column\<close> is not read.
\<close>

fun timeline_loop ::
  "'r pylib \<Rightarrow> colors \<Rightarrow> 'r timeline_row list \<Rightarrow> slide \<times> int \<times> year_dict
     \<Rightarrow> error + slide \<times> int \<times> year_dict" where
  "timeline_loop L colors [] st = Inr st"
| "timeline_loop L colors (row # rest) (slide, x_pos, year_positions) =
     (let year = Year row in
      case Inches L (Width row) of
        Inl e \<Rightarrow> Inl e
      | Inr width \<Rightarrow>
          (let slide = add_rectangle slide x_pos header_top width header_height
                         (Some (navy colors)) None;
               slide = add_text_box slide x_pos (Emu header_top) width header_height year 9
                         True (Some white) None CENTER False;
               year_positions = setitem year_positions (year_key year) x_pos
           in timeline_loop L colors rest (slide, x_pos + width, year_positions)))"

text \<open>
  Lines 283--288.  \<^verbatim>\<open>year\<close> is \<^verbatim>\<open>str(int(ms['Year']))\<close> and the second
  test reads the same integer back with \<^verbatim>\<open>int(year)\<close>.  Python evaluates the
  default argument \<^verbatim>\<open>list(year_positions.values())[-1]\<close> before the call of
  \<^verbatim>\<open>get\<close>, so an empty dictionary raises \<^verbatim>\<open>IndexError\<close> there even
  though no key could be found anyway.  \<open>None\<close> is the \<^verbatim>\<open>continue\<close>.
\<close>

definition find_x_position :: "year_dict \<Rightarrow> int \<Rightarrow> error + int option" where
  "find_x_position year_positions ms_year =
     (let year = str_int ms_year in
      case map_of year_positions year of
        Some x \<Rightarrow> Inr (Some (x + Inches_0_15))
      | None \<Rightarrow>
          if ms_year \<ge> 2029 then
            bind (last_value year_positions) (\<lambda>dflt.
              Inr (Some (get (map_of year_positions) ''2029'' dflt + Inches_0_3)))
          else Inr None)"

text \<open>Lines 276--298: the milestones of one row, whose top is \<^verbatim>\<open>current_top\<close>.\<close>

fun milestones_loop ::
  "'r pylib \<Rightarrow> colors \<Rightarrow> year_dict \<Rightarrow> int \<Rightarrow> 'r milestone_row list \<Rightarrow> slide
     \<Rightarrow> error + slide" where
  "milestones_loop L colors year_positions current_top [] slide = Inr slide"
| "milestones_loop L colors year_positions current_top (ms # rest) slide =
     (let v_offset = Vertical_Offset ms;
          text = Text ms;
          is_critical = (lower (Is_Critical ms) = ''yes'')
      in case find_x_position year_positions (ms_Year ms) of
           Inl e \<Rightarrow> Inl e
         | Inr None \<Rightarrow> milestones_loop L colors year_positions current_top rest slide
         | Inr (Some x) \<Rightarrow>
             (case Inches L v_offset of
                Inl e \<Rightarrow> Inl e
              | Inr offset \<Rightarrow>
                  (let y = current_top + offset;
                       slide = add_triangle_milestone slide x y Inches_0_12 (milestone colors);
                       text_color = (if is_critical then critical colors
                                     else (0x33, 0x33, 0x33));
                       slide = add_text_box slide (x + Inches_0_14) (Emu y) Inches_0_9
                                 Inches_0_15 text 7 False (Some text_color) None LEFT False
                   in milestones_loop L colors year_positions current_top rest slide)))"

text \<open>Lines 266--271: one thin rectangle per entry of \<^verbatim>\<open>year_positions\<close>.\<close>

fun gridlines_loop :: "year_dict \<Rightarrow> int \<Rightarrow> int \<Rightarrow> slide \<Rightarrow> slide" where
  "gridlines_loop [] current_top row_height slide = slide"
| "gridlines_loop ((key, year_x) # rest) current_top row_height slide =
     gridlines_loop rest current_top row_height
       (slide @ [Rectangle year_x current_top Pt_1 row_height (Some (0xcc, 0xcc, 0xcc)) None])"

text \<open>
  Lines 243--247 and again 305--309: the merged cell of the STC column and its
  label.
\<close>

definition draw_stc :: "colors \<Rightarrow> slide \<Rightarrow> int \<Rightarrow> int \<Rightarrow> string \<Rightarrow> slide" where
  "draw_stc colors slide stc_start_top stc_height current_stc =
     (let slide = add_rectangle slide 0 stc_start_top stc_width stc_height
                    (Some (navy colors)) None
      in add_text_box slide Inches_0_02 (Centred stc_start_top stc_height)
           (stc_width - Inches_0_04) Inches_0_25 current_stc 9 True (Some white) None
           CENTER False)"

text \<open>
  Lines 239--253, ``Handle STC column'': when the label of the row differs
  from \<^verbatim>\<open>current_stc\<close>, the cell of the run that ends is drawn and a new run
  starts at this row; otherwise the run grows by one.  The height of the cell
  is \<^verbatim>\<open>row_height * stc_row_count\<close>, where \<^verbatim>\<open>row_height\<close> is the height of
  the row being processed, that is of the row that starts the next run.
\<close>

type_synonym stc_state = "slide \<times> string option \<times> int \<times> int"

definition handle_stc :: "colors \<Rightarrow> string \<Rightarrow> int \<Rightarrow> int \<Rightarrow> stc_state \<Rightarrow> stc_state" where
  "handle_stc colors stc row_height current_top st =
     (case st of (slide, current_stc, stc_start_top, stc_row_count) \<Rightarrow>
        if Some stc \<noteq> current_stc then
          (case current_stc of
             None \<Rightarrow> slide
           | Some cs \<Rightarrow>
               if stc_row_count > 0
               then draw_stc colors slide stc_start_top (row_height * stc_row_count) cs
               else slide,
           Some stc, current_top, 1)
        else (slide, current_stc, stc_start_top, stc_row_count + 1))"

text \<open>
  Lines 229--300: the rows of one goal.  The state of the loop is the slide,
  \<^verbatim>\<open>current_top\<close>, \<^verbatim>\<open>current_stc\<close>, \<^verbatim>\<open>stc_start_top\<close> and
  \<^verbatim>\<open>stc_row_count\<close>.  (The dictionary \<^verbatim>\<open>stc_spans\<close> of lines 217--222
  is filled and never read; it is left out.)
\<close>

type_synonym rows_state = "slide \<times> int \<times> string option \<times> int \<times> int"

fun rows_loop ::
  "'r pylib \<Rightarrow> colors \<Rightarrow> year_dict \<Rightarrow> int \<Rightarrow> 'r milestone_row list \<Rightarrow> 'r rows_row list
     \<Rightarrow> rows_state \<Rightarrow> error + rows_state" where
  "rows_loop L colors year_positions total_grid_width milestones_df [] st = Inr st"
| "rows_loop L colors year_positions total_grid_width milestones_df (row # rest)
       (slide, current_top, current_stc, stc_start_top, stc_row_count) =
     (let row_id = Row_ID row;
          stc = STC_Label row;
          fta = FTA_Label row;
          bg_color_name = lower (Background_Color row)
      in case Inches L (Row_Height row) of
           Inl e \<Rightarrow> Inl e
         | Inr row_height \<Rightarrow>
             (let bg_color = get (bg_color_map colors) bg_color_name (pink colors);
                  (slide, current_stc, stc_start_top, stc_row_count) =
                    handle_stc colors stc row_height current_top
                      (slide, current_stc, stc_start_top, stc_row_count);
                  slide = add_rectangle slide stc_width current_top fta_width row_height
                            (Some (navy colors)) None;
                  slide = add_text_box slide (stc_width + Inches_0_25)
                            (Centred current_top row_height) Inches_0_5 Inches_0_25 fta 11 True
                            (Some white) None CENTER False;
                  slide = add_rectangle slide left_margin current_top
                            (total_grid_width + Inches_1_0) row_height (Some bg_color) None;
                  slide = gridlines_loop year_positions current_top row_height slide;
                  row_milestones = filter (\<lambda>ms. ms_Row_ID ms = row_id) milestones_df
              in case milestones_loop L colors year_positions current_top row_milestones
                        slide of
                   Inl e \<Rightarrow> Inl e
                 | Inr slide \<Rightarrow>
                     rows_loop L colors year_positions total_grid_width milestones_df rest
                       (slide, current_top + row_height, current_stc, stc_start_top,
                        stc_row_count)))"

text \<open>
  Lines 303--309: the cell of the last run of a goal, drawn with the height of
  the first row of the goal times the length of the run.  The height is read
  with \<^verbatim>\<open>.iloc[0]\<close> from the column, hence converted by \<open>Inches_np\<close>.
\<close>

definition final_stc ::
  "'r pylib \<Rightarrow> colors \<Rightarrow> 'r rows_row list \<Rightarrow> rows_state \<Rightarrow> error + slide" where
  "final_stc L colors goal_rows st =
     (case st of (slide, current_top, current_stc, stc_start_top, stc_row_count) \<Rightarrow>
        (case current_stc of
           None \<Rightarrow> Inr slide
         | Some cs \<Rightarrow>
             if stc_row_count > 0 then
               (case goal_rows of
                  [] \<Rightarrow> Inl IndexError
                | first # _ \<Rightarrow>
                    (case Inches_np L (Row_Height first) of
                       Inl e \<Rightarrow> Inl e
                     | Inr first_height \<Rightarrow>
                         Inr (draw_stc colors slide stc_start_top
                                (first_height * stc_row_count) cs)))
             else Inr slide))"

text \<open>Lines 204--309: one block per goal; the state is the slide and \<^verbatim>\<open>current_top\<close>.\<close>

fun goals_loop ::
  "'r pylib \<Rightarrow> colors \<Rightarrow> year_dict \<Rightarrow> int \<Rightarrow> 'r rows_row list \<Rightarrow> 'r milestone_row list
     \<Rightarrow> goal_row list \<Rightarrow> slide \<times> int \<Rightarrow> error + slide \<times> int" where
  "goals_loop L colors year_positions total_grid_width rows_df milestones_df [] st = Inr st"
| "goals_loop L colors year_positions total_grid_width rows_df milestones_df (goal # rest)
       (slide, current_top) =
     (let goal_id = Goal_ID goal;
          goal_name = Goal_Name goal;
          slide = add_text_box slide 0 (Emu current_top) SLIDE_WIDTH Inches_0_25 goal_name 12
                    True None None CENTER True;
          current_top = current_top + Inches_0_3;
          goal_rows = filter (\<lambda>r. r_Goal_ID r = goal_id) rows_df
      in case rows_loop L colors year_positions total_grid_width milestones_df goal_rows
                (slide, current_top, None, current_top, 0) of
           Inl e \<Rightarrow> Inl e
         | Inr st \<Rightarrow>
             (case final_stc L colors goal_rows st of
                Inl e \<Rightarrow> Inl e
              | Inr slide \<Rightarrow>
                  goals_loop L colors year_positions total_grid_width rows_df milestones_df
                    rest (slide, fst (snd st))))"

text \<open>Lines 311--363: the three term bands and the fixed part of the legend.\<close>

abbreviation dark_grey :: rgb where "dark_grey \<equiv> (0x33, 0x33, 0x33)"

definition en_dash :: string where
  "en_dash = [CHR 0xE2, CHR 0x80, CHR 0x93]"

definition uc_texts :: "string list" where
  "uc_texts =
     [''UC1 '' @ en_dash @ '' Use case 1 text'', ''UC2 '' @ en_dash @ '' Use case 2 text'',
      ''UC3 '' @ en_dash @ '' Use case 3 text'', ''UC4 '' @ en_dash @ '' Use case 4 text'']"

definition term_arrows :: "colors \<Rightarrow> int \<Rightarrow> slide \<Rightarrow> slide" where
  "term_arrows colors arrow_top slide =
     (let arrow_height = Inches_0_35;
          slide = add_rectangle slide left_margin arrow_top Inches_2_4 arrow_height
                    (Some (near_term colors)) None;
          slide = add_text_box slide left_margin (Emu arrow_top) Inches_2_4 arrow_height
                    ''Near Term'' 11 True (Some white) None CENTER True;
          slide = add_rectangle slide (left_margin + Inches_2_3) arrow_top Inches_2_0
                    arrow_height (Some (mid_term colors)) None;
          slide = add_text_box slide (left_margin + Inches_2_3) (Emu arrow_top) Inches_2_0
                    arrow_height ''Mid Term'' 11 True (Some white) None CENTER True;
          slide = add_rectangle slide (left_margin + Inches_4_2) arrow_top Inches_3_4
                    arrow_height (Some (far_term colors)) None
      in add_text_box slide (left_margin + Inches_4_2) (Emu arrow_top) Inches_3_4
           arrow_height ''Far Term'' 11 True (Some dark_grey) None CENTER True)"

fun uc_texts_loop :: "int \<Rightarrow> int \<Rightarrow> nat \<Rightarrow> string list \<Rightarrow> slide \<Rightarrow> slide" where
  "uc_texts_loop uc_left legend_top i [] slide = slide"
| "uc_texts_loop uc_left legend_top i (uc_text # rest) slide =
     uc_texts_loop uc_left legend_top (Suc i) rest
       (add_text_box slide uc_left (Emu (legend_top + Inches_uc_text i)) Inches_1_5
          Inches_0_15 uc_text 7 False None None LEFT False)"

definition legend :: "colors \<Rightarrow> int \<Rightarrow> int \<Rightarrow> slide \<Rightarrow> slide" where
  "legend colors legend_top legend_left slide =
     (let slide = add_text_box slide legend_left (Emu legend_top) Inches_1_0 Inches_0_2
                    ''LEGEND'' 8 True None None LEFT True;
          slide = add_rectangle slide legend_left (legend_top + Inches_0_2) Inches_1_3
                    Inches_0_2 (Some (tan_box colors)) None;
          slide = add_text_box slide legend_left (Emu (legend_top + Inches_0_2)) Inches_1_3
                    Inches_0_2 ''Strategic Test Capability'' 7 False (Some white) None CENTER
                    False;
          slide = add_rectangle slide legend_left (legend_top + Inches_0_45) Inches_1_3
                    Inches_0_2 (Some (navy colors)) None;
          slide = add_text_box slide legend_left (Emu (legend_top + Inches_0_45)) Inches_1_3
                    Inches_0_2 ''Functional Test Area'' 7 False (Some white) None CENTER False;
          slide = add_triangle_milestone slide legend_left (legend_top + Inches_0_7)
                    Inches_0_12 (milestone colors);
          slide = add_text_box slide (legend_left + Inches_0_15) (Emu (legend_top + Inches_0_7))
                    Inches_1_0 Inches_0_15 ''Key Milestone'' 7 False None None LEFT False;
          uc_left = legend_left + Inches_1_6;
          slide = add_text_box slide uc_left (Emu (legend_top + Inches_0_2)) Inches_1_5
                    Inches_0_15 ''Use Cases:'' 7 True None None LEFT False
      in uc_texts_loop uc_left legend_top 0 uc_texts slide)"

text \<open>Lines 366--374: one marker and one label per use case; the colour is parsed here.\<close>

fun usecases_loop ::
  "'r pylib \<Rightarrow> int \<Rightarrow> int \<Rightarrow> nat \<Rightarrow> usecase_row list \<Rightarrow> slide \<Rightarrow> error + slide" where
  "usecases_loop L uc_indicator_left legend_top i [] slide = Inr slide"
| "usecases_loop L uc_indicator_left legend_top i (uc # rest) slide =
     (let uc_id = Use_Case_ID uc in
      case hex_to_rgb L (Str (Color uc)) of
        Inl e \<Rightarrow> Inl e
      | Inr uc_color \<Rightarrow>
          (let slide = add_triangle_milestone slide uc_indicator_left
                         (legend_top + Inches_uc L i) Inches_0_1 uc_color;
               slide = add_text_box slide (uc_indicator_left + Inches_0_12)
                         (Emu (legend_top + Inches_uc L i)) Inches_1_2 Inches_0_12 uc_id 6
                         False None None LEFT False
           in usecases_loop L uc_indicator_left legend_top (Suc i) rest slide))"

definition fiscal_years_label :: string where
  "fiscal_years_label = ''Fiscal Years '' @ [CHR 0xE2, CHR 0x86, CHR 0x92]"

definition create_roadmap_from_data :: "'r pylib \<Rightarrow> 'r data \<Rightarrow> error + slide" where
  "create_roadmap_from_data L data =
     (let settings = d_settings data;
          timeline_df = d_timeline data;
          goals_df = d_goals data;
          rows_df = d_rows data;
          milestones_df = d_milestones data;
          usecases_df = d_usecases data
      in
      bind (parse_colors L settings) (\<lambda>colors.
        let slide = [Rectangle 0 0 SLIDE_WIDTH SLIDE_HEIGHT (Some (0xe0, 0xe0, 0xd0)) None];
            title = get settings ''Title'' (Str ''Roadmap'');
            slide = add_text_box slide 0 (Emu Inches_0_15) SLIDE_WIDTH Inches_0_5 (py_str title)
                      24 True None None CENTER True;
            slide = add_rectangle slide left_margin header_top Inches_1_0 header_height
                      (Some (navy colors)) None;
            slide = add_text_box slide left_margin (Emu header_top) Inches_1_0 header_height
                      fiscal_years_label 9 True (Some white) None CENTER False
        in
        bind (timeline_loop L colors timeline_df (slide, left_margin + Inches_1_0, []))
          (\<lambda>(slide, x_pos, year_positions).
        let total_grid_width = x_pos - left_margin - Inches_1_0
        in
        bind (goals_loop L colors year_positions total_grid_width rows_df milestones_df
                goals_df (slide, Inches_0_95)) (\<lambda>(slide, current_top).
          let arrow_top = current_top + Inches_0_1;
              slide = term_arrows colors arrow_top slide;
              legend_top = arrow_top + Inches_0_5;
              legend_left = Inches_0_3;
              slide = legend colors legend_top legend_left slide;
              uc_left = legend_left + Inches_1_6;
              uc_indicator_left = uc_left + Inches_1_7
          in usecases_loop L uc_indicator_left legend_top 0 usecases_df slide))))"

subsection \<open>Reading the slide\<close>

text \<open>
  The geometry of the rectangles and of the triangles of a slide, in drawing
  order.  Among the shapes of a goal block, the cell of the STC column is the
  rectangle at the left edge that is \<^verbatim>\<open>stc_width\<close> wide, and the cell of the
  FTA column, one per row, is the rectangle at \<^verbatim>\<open>stc_width\<close> that is
  \<^verbatim>\<open>fta_width\<close> wide.
\<close>

fun rectangles :: "slide \<Rightarrow> (int \<times> int \<times> int \<times> int) list" where
  "rectangles [] = []"
| "rectangles (Rectangle l t w h f line # rest) = (l, t, w, h) # rectangles rest"
| "rectangles (_ # rest) = rectangles rest"

fun triangles :: "slide \<Rightarrow> (int \<times> int) list" where
  "triangles [] = []"
| "triangles (Triangle l t sz c # rest) = (l, t) # triangles rest"
| "triangles (_ # rest) = triangles rest"

definition stc_cells :: "slide \<Rightarrow> (int \<times> int) list" where
  "stc_cells s = [(t, h). (l, t, w, h) \<leftarrow> rectangles s, l = 0 \<and> w = stc_width]"

definition row_cells :: "slide \<Rightarrow> (int \<times> int) list" where
  "row_cells s = [(t, h). (l, t, w, h) \<leftarrow> rectangles s, l = stc_width \<and> w = fta_width]"

text \<open>The running sums \<open>x\<close>, \<open>x + w\<^sub>0\<close>, \<open>x + w\<^sub>0 + w\<^sub>1\<close>, \dots\<close>

fun offsets :: "int \<Rightarrow> int list \<Rightarrow> int list" where
  "offsets x [] = []"
| "offsets x (w # ws) = x # offsets (x + w) ws"

text \<open>
  The dictionary \<^verbatim>\<open>year_positions\<close> as it stands after line 193, when the
  timeline loop returns (it does not depend on the shapes already on the
  slide, lemma \<open>timeline_loop_positions\<close>), and the shapes that the timeline
  loop adds for one entry and that the row loop adds for one row (without the
  cell of the STC column and without the milestones).
\<close>

definition year_positions_of :: "'r pylib \<Rightarrow> colors \<Rightarrow> 'r timeline_row list \<Rightarrow> year_dict" where
  "year_positions_of L colors timeline_df =
     (case timeline_loop L colors timeline_df ([], left_margin + Inches_1_0, []) of
        Inl e \<Rightarrow> []
      | Inr (slide, x_pos, year_positions) \<Rightarrow> year_positions)"

abbreviation header_cell :: "colors \<Rightarrow> int \<times> int \<Rightarrow> 'r timeline_row \<Rightarrow> shape list" where
  "header_cell c \<equiv> (\<lambda>(x, w) e.
     [Rectangle x header_top w header_height (Some (navy c)) None,
      TextBox x (Emu header_top) w header_height (Year e) 9 True (Some white) None CENTER
        False])"

abbreviation gridline :: "int \<Rightarrow> int \<Rightarrow> string \<times> int \<Rightarrow> shape" where
  "gridline t h \<equiv> (\<lambda>(k, x). Rectangle x t Pt_1 h (Some (0xcc, 0xcc, 0xcc)) None)"

definition row_shapes :: "colors \<Rightarrow> year_dict \<Rightarrow> int \<Rightarrow> int \<Rightarrow> int \<Rightarrow> 'r rows_row \<Rightarrow> slide" where
  "row_shapes c yp tgw t h row =
     [Rectangle stc_width t fta_width h (Some (navy c)) None,
      TextBox (stc_width + Inches_0_25) (Centred t h) Inches_0_5 Inches_0_25 (FTA_Label row)
        11 True (Some white) None CENTER False,
      Rectangle left_margin t (tgw + Inches_1_0) h
        (Some (get (bg_color_map c) (lower (Background_Color row)) (pink c))) None]
     @ map (gridline t h) yp"

text \<open>
  Where the marker of a milestone belongs when its row has its top at \<open>t\<close>:
  at the \<open>x\<close> that lines 283--288 find, and \<open>Inches\<close> of the vertical offset
  below \<open>t\<close>; nowhere when the milestone is skipped.
\<close>

definition marker_of :: "'r pylib \<Rightarrow> year_dict \<Rightarrow> int \<Rightarrow> 'r milestone_row \<Rightarrow> (int \<times> int) list" where
  "marker_of L yp t m =
     (case find_x_position yp (ms_Year m) of
        Inr (Some x) \<Rightarrow>
          (case Inches L (Vertical_Offset m) of Inr v \<Rightarrow> [(x, t + v)] | Inl e \<Rightarrow> [])
      | _ \<Rightarrow> [])"

subsection \<open>Library instances and workbooks for evaluation\<close>

text \<open>
  For inches given as whole numbers \<^verbatim>\<open>Inches(n)\<close> is \<open>914400 * n\<close> exactly
  (instance \<open>whole_inches\<close>, used with small numbers only).  For inches given
  as fractions, \<open>truncating_inches\<close> multiplies exactly and truncates towards
  zero as \<^verbatim>\<open>int\<close> does; it is used below at one millionth of an inch, where
  the product is 0.9144 and the double-precision product is within rounding
  of it, so that both give 0.
  \<open>int16_digits\<close> is \<^verbatim>\<open>int(s, 16)\<close> on ASCII strings of at most two
  characters, which is what the slices of \<^verbatim>\<open>hex_to_rgb\<close> are for an ASCII
  colour string: one or two hexadecimal digits, or one digit with a blank
  before or after it or a sign before it; a prefix or an underscore cannot be
  part of a number that short.  \<^verbatim>\<open>Inches(0.2 + i * 0.2)\<close> is
  \<open>182880 * (i + 1)\<close> for \<open>i < 40\<close>.
\<close>

definition hex_digit :: "char \<Rightarrow> int option" where
  "hex_digit c =
     (let n = (of_char c :: nat) in
      if 48 \<le> n \<and> n \<le> 57 then Some (int n - 48)
      else if 65 \<le> n \<and> n \<le> 70 then Some (int n - 55)
      else if 97 \<le> n \<and> n \<le> 102 then Some (int n - 87)
      else None)"

definition py_space :: "char \<Rightarrow> bool" where
  \<comment> \<open>the blanks that \<^verbatim>\<open>int\<close> strips: tab to carriage return, and the space\<close>
  "py_space c = (let n = (of_char c :: nat) in 9 \<le> n \<and> n \<le> 13 \<or> n = 32)"

definition int16_digits :: "string \<Rightarrow> int option" where
  "int16_digits s =
     (case s of
        [a] \<Rightarrow> hex_digit a
      | [a, b] \<Rightarrow>
          (case hex_digit b of
             None \<Rightarrow> if py_space b then hex_digit a else None
           | Some y \<Rightarrow>
               (case hex_digit a of
                  Some x \<Rightarrow> Some (16 * x + y)
                | None \<Rightarrow>
                    if py_space a \<or> a = CHR ''+'' then Some y
                    else if a = CHR ''-'' then Some (- y)
                    else None))
      | _ \<Rightarrow> None)"

definition whole_inches :: "int pylib" where
  "whole_inches =
     \<lparr>Inches = (\<lambda>n. Inr (n * 914400)), Inches_np = (\<lambda>n. Inr (n * 914400)),
      int16 = int16_digits, Inches_uc = (\<lambda>i. 182880 * (int i + 1))\<rparr>"

definition truncate :: "rat \<Rightarrow> int" where
  "truncate v = (if 0 \<le> v then \<lfloor>v\<rfloor> else \<lceil>v\<rceil>)"

definition truncating_inches :: "rat pylib" where
  "truncating_inches =
     \<lparr>Inches = (\<lambda>v. Inr (truncate (v * 914400))),
      Inches_np = (\<lambda>v. Inr (truncate (v * 914400))),
      int16 = int16_digits, Inches_uc = (\<lambda>i. 182880 * (int i + 1))\<rparr>"

definition default_colors :: colors where
  \<comment> \<open>the colours of an empty \<^verbatim>\<open>Settings\<close> sheet\<close>
  "default_colors =
     \<lparr>navy = (0x1A, 0x1A, 0x4E), pink = (0xFF, 0xE0, 0xE0), purple = (0xE0, 0xD8, 0xF0),
      yellow = (0xFF, 0xF0, 0xD0), milestone = (0xF0, 0xC0, 0x40),
      critical = (0xCC, 0x00, 0x00), near_term = (0x55, 0x55, 0x55),
      mid_term = (0xC8, 0xA0, 0x80), far_term = (0xE8, 0xD8, 0xC8),
      tan_box = (0xC0, 0xA0, 0x80)\<rparr>"

definition demo_timeline :: "int timeline_row list" where
  "demo_timeline =
     [\<lparr>Year = ''2023'', Width = 1, Is_Last_Column = ''No''\<rparr>,
      \<lparr>Year = ''2024'', Width = 1, Is_Last_Column = ''No''\<rparr>,
      \<lparr>Year = ''2029-2053'', Width = 2, Is_Last_Column = ''Yes''\<rparr>]"

definition relabelled_timeline :: "int timeline_row list" where
  "relabelled_timeline =
     [\<lparr>Year = ''2023'', Width = 1, Is_Last_Column = ''Yes''\<rparr>,
      \<lparr>Year = ''2024'', Width = 1, Is_Last_Column = ''Yes''\<rparr>,
      \<lparr>Year = ''2029-2053'', Width = 2, Is_Last_Column = ''No''\<rparr>]"

definition repeated_timeline :: "int timeline_row list" where
  "repeated_timeline =
     [\<lparr>Year = ''2030'', Width = 1, Is_Last_Column = ''No''\<rparr>,
      \<lparr>Year = ''2031'', Width = 1, Is_Last_Column = ''No''\<rparr>,
      \<lparr>Year = ''2030-2040'', Width = 2, Is_Last_Column = ''Yes''\<rparr>]"

definition tiny_timeline :: "rat timeline_row list" where
  "tiny_timeline =
     [\<lparr>Year = ''2023'', Width = 1 / 1000000, Is_Last_Column = ''No''\<rparr>,
      \<lparr>Year = ''2024'', Width = 1 / 1000000, Is_Last_Column = ''Yes''\<rparr>]"

definition short_timeline :: "int timeline_row list" where
  "short_timeline =
     [\<lparr>Year = ''2023'', Width = 1, Is_Last_Column = ''No''\<rparr>,
      \<lparr>Year = ''2024'', Width = 1, Is_Last_Column = ''Yes''\<rparr>]"

definition pink_row :: "int rows_row" where
  "pink_row = \<lparr>Row_ID = 1, STC_Label = ''STC1'', FTA_Label = ''FTA1'',
               Background_Color = ''Pink'', r_Goal_ID = 1, Row_Height = 1\<rparr>"

definition teal_row :: "int rows_row" where
  "teal_row = \<lparr>Row_ID = 2, STC_Label = ''STC2'', FTA_Label = ''FTA2'',
               Background_Color = ''Teal'', r_Goal_ID = 1, Row_Height = 2\<rparr>"

definition ms_2024 :: "int milestone_row" where
  "ms_2024 = \<lparr>ms_Row_ID = 1, ms_Year = 2024, Vertical_Offset = 0, Text = ''Goal text'',
              Is_Critical = ''Yes''\<rparr>"

definition ms_2029 :: "int milestone_row" where
  "ms_2029 = \<lparr>ms_Row_ID = 2, ms_Year = 2029, Vertical_Offset = 1, Text = ''Goal text'',
              Is_Critical = ''No''\<rparr>"

definition ms_2030 :: "int milestone_row" where
  "ms_2030 = \<lparr>ms_Row_ID = 1, ms_Year = 2030, Vertical_Offset = 0, Text = ''Goal text'',
              Is_Critical = ''No''\<rparr>"

definition ms_2031 :: "int milestone_row" where
  "ms_2031 = \<lparr>ms_Row_ID = 2, ms_Year = 2031, Vertical_Offset = 1, Text = ''Goal text'',
              Is_Critical = ''No''\<rparr>"

definition ms_2026 :: "int milestone_row" where
  "ms_2026 = \<lparr>ms_Row_ID = 1, ms_Year = 2026, Vertical_Offset = 0, Text = ''Goal text'',
              Is_Critical = ''No''\<rparr>"

definition ms_1999 :: "int milestone_row" where
  "ms_1999 = \<lparr>ms_Row_ID = 1, ms_Year = 1999, Vertical_Offset = 0, Text = ''Goal text'',
              Is_Critical = ''No''\<rparr>"

definition ms_no_row :: "int milestone_row" where
  "ms_no_row = \<lparr>ms_Row_ID = 7, ms_Year = 2024, Vertical_Offset = 0, Text = ''Goal text'',
                Is_Critical = ''No''\<rparr>"

definition workbook ::
  "int timeline_row list \<Rightarrow> int rows_row list \<Rightarrow> int milestone_row list \<Rightarrow> int data" where
  "workbook timeline_df rows_df milestones_df =
     \<lparr>d_settings = Map.empty, d_timeline = timeline_df,
      d_goals = [\<lparr>Goal_ID = 1, Goal_Name = ''Overarching goal 1''\<rparr>],
      d_rows = rows_df, d_milestones = milestones_df,
      d_usecases = [\<lparr>Use_Case_ID = ''UC1, UC2'', Description = ''Use case 1 text'',
                     Color = ''E8A060''\<rparr>]\<rparr>"


section \<open>Properties\<close>

subsection \<open>Strings and dictionaries\<close>

lemma py_split_nonempty: "py_split sep s \<noteq> []"
  by (induction s) (auto split: list.splits)

lemma year_key_takeWhile: "year_key s = takeWhile (\<lambda>c. c \<noteq> CHR ''-'') s"
  unfolding year_key_def
proof (induction s)
  case Nil
  show ?case by simp
next
  case (Cons c cs)
  then show ?case using py_split_nonempty [of "CHR ''-''" cs]
    by (cases "py_split CHR ''-'' cs") auto
qed

lemma map_of_setitem: "map_of (setitem d k v) = (map_of d)(k \<mapsto> v)"
proof (cases "k \<in> fst ` set d")
  case False
  then have "map_of d k = None" by (simp add: map_of_eq_None_iff)
  with False show ?thesis
    by (auto simp: setitem_def map_of_append fun_eq_iff map_add_def split: option.splits)
next
  case True
  have "map_of (map (\<lambda>(k', v'). if k' = k then (k', v) else (k', v')) d) = (\<lambda>x. if x = k then (if k \<in> fst ` set d then Some v else None) else map_of d x)"
    by (induction d) (auto simp: fun_eq_iff)
  with True show ?thesis by (auto simp: setitem_def fun_eq_iff)
qed

lemma keys_setitem: "fst ` set (setitem d k v) = insert k (fst ` set d)"
  by (force simp: setitem_def split: if_splits)

lemma setitem_fresh: "k \<notin> fst ` set d \<Longrightarrow> setitem d k v = d @ [(k, v)]"
  by (simp add: setitem_def)

subsection \<open>Conversions, running sums and the timeline loop\<close>


lemma map_of_fold_setitem:
  "map_of (fold (\<lambda>(k, v) d. setitem d k v) ps d) = map_of d ++ map_of (rev ps)"
proof (induction ps arbitrary: d)
  case Nil
  show ?case by simp
next
  case (Cons p ps)
  obtain k v where p: "p = (k, v)" by (cases p)
  show ?case
    by (simp add: p Cons map_of_setitem map_of_append fun_eq_iff map_add_def split: option.splits)
qed

lemma keys_fold_setitem:
  "fst ` set (fold (\<lambda>(k, v) d. setitem d k v) ps d) = fst ` set d \<union> fst ` set ps"
  by (induction ps arbitrary: d) (auto simp: keys_setitem split: prod.splits)

lemma fold_setitem_distinct:
  "distinct (map fst ps) \<Longrightarrow> fst ` set ps \<inter> fst ` set d = {} \<Longrightarrow>
   fold (\<lambda>(k, v) d. setitem d k v) ps d = d @ ps"
proof (induction ps arbitrary: d)
  case Nil
  show ?case by simp
next
  case (Cons p ps)
  obtain k v where p: "p = (k, v)" by (cases p)
  from Cons.prems have fresh: "k \<notin> fst ` set d" by (auto simp: p)
  from Cons.prems have "fst ` set ps \<inter> fst ` set (d @ [(k, v)]) = {}"
    by (auto simp: p)
  with Cons show ?case by (simp add: p setitem_fresh [OF fresh])
qed

lemma length_offsets [simp]: "length (offsets x ws) = length ws"
  by (induction ws arbitrary: x) simp_all

lemma offsets_nth: "i < length ws \<Longrightarrow> offsets x ws ! i = x + sum_list (take i ws)"
proof (induction ws arbitrary: x i)
  case Nil
  then show ?case by simp
next
  case (Cons w ws)
  then show ?case by (cases i) simp_all
qed

lemma offsets_lower: "\<forall>w \<in> set ws. 0 < w \<Longrightarrow> y \<in> set (offsets x ws) \<Longrightarrow> x \<le> y"
proof (induction ws arbitrary: x)
  case Nil
  then show ?case by simp
next
  case (Cons w ws)
  then show ?case by fastforce
qed

lemma offsets_increasing: "\<forall>w \<in> set ws. 0 < w \<Longrightarrow> sorted_wrt (<) (offsets x ws)"
proof (induction ws arbitrary: x)
  case Nil
  show ?case by simp
next
  case (Cons w ws)
  then show ?case using offsets_lower [of ws _ "x + w"] by fastforce
qed

lemma map_of_rev_last:
  assumes "i < length ps" and "fst (ps ! i) \<notin> fst ` set (drop (Suc i) ps)"
  shows "map_of (rev ps) (fst (ps ! i)) = Some (snd (ps ! i))"
proof -
  have ps: "ps = take i ps @ ps ! i # drop (Suc i) ps"
    using assms(1) by (simp add: id_take_nth_drop)
  from assms(2) have none: "map_of (rev (drop (Suc i) ps)) (fst (ps ! i)) = None"
    by (simp add: map_of_eq_None_iff)
  have "map_of (rev ps) = map_of (rev (take i ps @ ps ! i # drop (Suc i) ps))"
    using ps by simp
  then show ?thesis using none
    by (cases "ps ! i") (simp add: map_of_append map_add_def)
qed

lemma timeline_loop_eq:
  "map (\<lambda>e. Inches L (Width e)) tls = map Inr ws \<Longrightarrow>
   timeline_loop L c tls (s, x, d) =
     Inr (s @ concat (map2 (header_cell c) (zip (offsets x ws) ws) tls),
          x + sum_list ws,
          fold (\<lambda>(k, v) d. setitem d k v)
            (zip (map (\<lambda>e. year_key (Year e)) tls) (offsets x ws)) d)"
proof (induction tls arbitrary: s x d ws)
  case Nil
  then show ?case by simp
next
  case (Cons e tls)
  then obtain w ws' where ws: "ws = w # ws'" by (cases ws) auto
  with Cons.prems have w: "Inches L (Width e) = Inr w"
    and rest: "map (\<lambda>e. Inches L (Width e)) tls = map Inr ws'"
    by simp_all
  show ?case
    by (simp add: ws w Cons.IH [OF rest] Let_def add_rectangle_def add_text_box_def)
qed

lemma timeline_loop_converts:
  "timeline_loop L c tls st = Inr st' \<Longrightarrow> \<exists>ws. map (\<lambda>e. Inches L (Width e)) tls = map Inr ws"
proof (induction tls arbitrary: st)
  case Nil
  show ?case by simp
next
  case (Cons e tls)
  obtain s x d where st: "st = (s, x, d)" by (cases st)
  from Cons.prems obtain w st1 where w: "Inches L (Width e) = Inr w"
    and "timeline_loop L c tls st1 = Inr st'"
    unfolding st by (auto simp: Let_def split: sum.splits)
  from Cons.IH [OF this(2)] obtain ws where "map (\<lambda>e. Inches L (Width e)) tls = map Inr ws"
    by blast
  with w have "map (\<lambda>e. Inches L (Width e)) (e # tls) = map Inr (w # ws)" by simp
  then show ?case by blast
qed

lemma timeline_loop_cong:
  "list_all2 (\<lambda>a b. Year a = Year b \<and> Width a = Width b) tl1 tl2 \<Longrightarrow>
   timeline_loop L c tl1 st = timeline_loop L c tl2 st"
proof (induction tl1 tl2 arbitrary: st rule: list_all2_induct)
  case Nil
  show ?case by simp
next
  case (Cons a tl1 b tl2)
  then show ?case by (cases st) (simp add: Let_def split: sum.splits)
qed

subsection \<open>Shapes\<close>

lemma rectangles_append [simp]: "rectangles (a @ b) = rectangles a @ rectangles b"
  by (induction a rule: rectangles.induct) simp_all

lemma triangles_append [simp]: "triangles (a @ b) = triangles a @ triangles b"
  by (induction a rule: triangles.induct) simp_all

lemma row_cells_append [simp]: "row_cells (a @ b) = row_cells a @ row_cells b"
  by (simp add: row_cells_def)

lemma stc_cells_append [simp]: "stc_cells (a @ b) = stc_cells a @ stc_cells b"
  by (simp add: stc_cells_def)

lemma gridlines_loop_eq:
  "gridlines_loop yp t h s =
     s @ map (\<lambda>(k, x). Rectangle x t Pt_1 h (Some (0xcc, 0xcc, 0xcc)) None) yp"
  by (induction yp t h s rule: gridlines_loop.induct) simp_all

lemma row_cells_simps [simp]:
  "row_cells [] = []"
  "row_cells (Rectangle l t w h f line # s) =
     (if l = stc_width \<and> w = fta_width then (t, h) # row_cells s else row_cells s)"
  "row_cells (TextBox a1 a2 a3 a4 a5 a6 a7 a8 a9 a10 a11 # s) = row_cells s"
  "row_cells (Triangle b1 b2 b3 b4 # s) = row_cells s"
  by (simp_all add: row_cells_def)

lemma stc_cells_simps [simp]:
  "stc_cells [] = []"
  "stc_cells (Rectangle l t w h f line # s) =
     (if l = 0 \<and> w = stc_width then (t, h) # stc_cells s else stc_cells s)"
  "stc_cells (TextBox a1 a2 a3 a4 a5 a6 a7 a8 a9 a10 a11 # s) = stc_cells s"
  "stc_cells (Triangle b1 b2 b3 b4 # s) = stc_cells s"
  by (simp_all add: stc_cells_def)

lemma row_cells_gridlines [simp]:
  "row_cells (map (\<lambda>(k, x). Rectangle x t Pt_1 h (Some (0xcc, 0xcc, 0xcc)) None) yp) = []"
  by (induction yp) (simp_all split: prod.splits)

lemma row_cells_no_rectangles: "rectangles s = [] \<Longrightarrow> row_cells s = []"
  by (simp add: row_cells_def)

lemma triangles_gridlines [simp]: "triangles (map (gridline t h) yp) = []"
  by (induction yp) (simp_all split: prod.splits)

lemma rectangles_header_cells:
  "length tls = length ws \<Longrightarrow>
   rectangles (concat (map2 (header_cell c) (zip (offsets x ws) ws) tls)) =
     map (\<lambda>(x, w). (x, header_top, w, header_height)) (zip (offsets x ws) ws)"
proof (induction tls arbitrary: x ws)
  case Nil
  then show ?case by simp
next
  case (Cons e tls)
  then obtain w ws' where "ws = w # ws'" by (cases ws) auto
  with Cons show ?case by simp
qed

subsection \<open>The milestones of a row\<close>

lemma find_x_position_ok:
  "yp \<noteq> [] \<Longrightarrow> \<exists>r. find_x_position yp y = Inr r"
  by (cases yp) (auto simp: find_x_position_def bind_def last_value_def Let_def split: option.splits)

lemma find_x_position_exact:
  "map_of yp (str_int y) = Some x \<Longrightarrow> find_x_position yp y = Inr (Some (x + Inches_0_15))"
  by (simp add: find_x_position_def)

lemma find_x_position_overflow:
  "map_of yp (str_int y) = None \<Longrightarrow> yp \<noteq> [] \<Longrightarrow>
   find_x_position yp y =
     Inr (if 2029 \<le> y then Some (get (map_of yp) ''2029'' (snd (last yp)) + Inches_0_3) else None)"
  by (cases yp) (simp_all add: find_x_position_def last_value_def bind_def)

lemma find_x_position_skip:
  "str_int y \<notin> fst ` set yp \<Longrightarrow> y < 2029 \<Longrightarrow> find_x_position yp y = Inr None"
proof -
  assume "str_int y \<notin> fst ` set yp" and y: "y < 2029"
  then have "map_of yp (str_int y) = None" by (simp add: map_of_eq_None_iff)
  with y show ?thesis by (simp add: find_x_position_def)
qed

lemma milestones_loop_Cons:
  "milestones_loop L c yp t (m # ms) s =
     (case find_x_position yp (ms_Year m) of
        Inl e \<Rightarrow> Inl e
      | Inr None \<Rightarrow> milestones_loop L c yp t ms s
      | Inr (Some x) \<Rightarrow>
          (case Inches L (Vertical_Offset m) of
             Inl e \<Rightarrow> Inl e
           | Inr v \<Rightarrow>
               milestones_loop L c yp t ms
                 (s @ [Triangle x (t + v) Inches_0_12 (milestone c),
                       TextBox (x + Inches_0_14) (Emu (t + v)) Inches_0_9 Inches_0_15 (Text m) 7
                         False
                         (Some (if lower (Is_Critical m) = ''yes'' then critical c
                                else dark_grey))
                         None LEFT False])))"
  by (simp add: Let_def add_triangle_milestone_def add_text_box_def
        split: sum.splits option.splits)

lemma milestones_loop_shapes:
  "milestones_loop L c yp t ms s = Inr s' \<Longrightarrow>
   \<exists>new. s' = s @ new \<and> rectangles new = [] \<and>
         triangles new = concat (map (marker_of L yp t) ms)"
proof (induction ms arbitrary: s)
  case Nil
  then show ?case by simp
next
  case (Cons m ms)
  show ?case
  proof (cases "find_x_position yp (ms_Year m)")
    case (Inl e)
    with Cons.prems show ?thesis by (simp add: milestones_loop_Cons del: milestones_loop.simps)
  next
    case (Inr r)
    show ?thesis
    proof (cases r)
      case None
      with Inr Cons.prems have "milestones_loop L c yp t ms s = Inr s'"
        by (simp add: milestones_loop_Cons del: milestones_loop.simps)
      from Cons.IH [OF this] None Inr show ?thesis by (simp add: marker_of_def)
    next
      case (Some x)
      show ?thesis
      proof (cases "Inches L (Vertical_Offset m)")
        case (Inl e)
        with Some Inr Cons.prems show ?thesis
          by (simp add: milestones_loop_Cons del: milestones_loop.simps)
      next
        case off: (Inr v)
        let ?two = "[Triangle x (t + v) Inches_0_12 (milestone c),
                     TextBox (x + Inches_0_14) (Emu (t + v)) Inches_0_9 Inches_0_15 (Text m) 7
                       False
                       (Some (if lower (Is_Critical m) = ''yes'' then critical c
                              else dark_grey))
                       None LEFT False]"
        from Some Inr off Cons.prems have "milestones_loop L c yp t ms (s @ ?two) = Inr s'"
          by (simp add: milestones_loop_Cons del: milestones_loop.simps)
        from Cons.IH [OF this] obtain new where
          "s' = (s @ ?two) @ new" "rectangles new = []"
          "triangles new = concat (map (marker_of L yp t) ms)"
          by blast
        then have "s' = s @ (?two @ new) \<and> rectangles (?two @ new) = [] \<and>
            triangles (?two @ new) = concat (map (marker_of L yp t) (m # ms))"
          using Some Inr off by (simp add: marker_of_def)
        then show ?thesis by blast
      qed
    qed
  qed
qed

lemma milestones_loop_ok:
  "yp \<noteq> [] \<Longrightarrow> \<forall>m \<in> set ms. \<exists>v. Inches L (Vertical_Offset m) = Inr v \<Longrightarrow>
   \<exists>s'. milestones_loop L c yp t ms s = Inr s'"
proof (induction ms arbitrary: s)
  case Nil
  show ?case by simp
next
  case (Cons m ms)
  from find_x_position_ok [OF Cons.prems(1)] obtain r where
    r: "find_x_position yp (ms_Year m) = Inr r"
    by blast
  from Cons.prems(2) obtain v where v: "Inches L (Vertical_Offset m) = Inr v" by auto
  from Cons.prems have IH: "\<And>s. \<exists>s'. milestones_loop L c yp t ms s = Inr s'"
    by (intro Cons.IH) auto
  show ?case
    using r v IH by (cases r) (simp_all add: milestones_loop_Cons del: milestones_loop.simps)
qed

lemma milestones_loop_skip:
  "find_x_position yp (ms_Year m) = Inr None \<Longrightarrow>
   milestones_loop L c yp t (xs @ m # ys) s = milestones_loop L c yp t (xs @ ys) s"
proof (induction xs arbitrary: s)
  case Nil
  then show ?case by (simp add: milestones_loop_Cons del: milestones_loop.simps)
next
  case (Cons x xs)
  then show ?case
    by (simp add: milestones_loop_Cons del: milestones_loop.simps
          split: sum.splits option.splits)
qed

lemma filter_skip:
  "find_x_position yp (ms_Year m) = Inr None \<or> \<not> P m \<Longrightarrow>
   milestones_loop L c yp t (filter P (xs @ m # ys)) s =
   milestones_loop L c yp t (filter P (xs @ ys)) s"
  using milestones_loop_skip [of yp m L c t "filter P xs" "filter P ys" s] by auto

subsection \<open>The rows of a goal and the goals\<close>

lemma rows_loop_Cons:
  "Inches L (Row_Height row) = Inr h \<Longrightarrow>
   rows_loop L c yp tgw mss (row # rest) (s, t, cs, st, n) =
     (case handle_stc c (STC_Label row) h t (s, cs, st, n) of
        (s1, cs1, st1, n1) \<Rightarrow>
          (case milestones_loop L c yp t (filter (\<lambda>ms. ms_Row_ID ms = Row_ID row) mss)
                  (s1 @ row_shapes c yp tgw t h row) of
             Inl e \<Rightarrow> Inl e
           | Inr s2 \<Rightarrow> rows_loop L c yp tgw mss rest (s2, t + h, cs1, st1, n1)))"
  by (simp add: Let_def add_rectangle_def add_text_box_def gridlines_loop_eq row_shapes_def
        split: prod.splits)

lemma rows_loop_Cons_fails:
  "Inches L (Row_Height row) = Inl e \<Longrightarrow>
   rows_loop L c yp tgw mss (row # rest) (s, t, cs, st, n) = Inl e"
  by (simp add: Let_def)

lemma row_cells_row_shapes [simp]: "row_cells (row_shapes c yp tgw t h row) = [(t, h)]"
  by (simp add: row_shapes_def)

lemma triangles_row_shapes [simp]: "triangles (row_shapes c yp tgw t h row) = []"
  by (simp add: row_shapes_def)

lemma handle_stc_frame:
  "handle_stc c stc h t (s, cs, st, n) = (s1, cs1, st1, n1) \<Longrightarrow>
   \<exists>new. s1 = s @ new \<and> row_cells new = [] \<and> triangles new = []"
  by (auto simp: handle_stc_def draw_stc_def add_rectangle_def add_text_box_def
        split: if_splits option.splits)

lemma rows_loop_cells:
  "rows_loop L c yp tgw mss rs (s, t, cs, st, n) = Inr (s', t', cs', st', n') \<Longrightarrow>
   \<exists>hs new. map (\<lambda>r. Inches L (Row_Height r)) rs = map Inr hs \<and>
      t' = t + sum_list hs \<and> s' = s @ new \<and>
      row_cells new = zip (offsets t hs) hs \<and>
      triangles new =
        concat (map2 (\<lambda>t row. concat (map (marker_of L yp t)
                        (filter (\<lambda>m. ms_Row_ID m = Row_ID row) mss)))
                  (offsets t hs) rs)"
proof (induction rs arbitrary: s t cs st n)
  case Nil
  then show ?case by simp
next
  case (Cons row rest)
  from Cons.prems obtain h where h: "Inches L (Row_Height row) = Inr h"
    by (cases "Inches L (Row_Height row)") (simp_all add: rows_loop_Cons_fails del: rows_loop.simps)
  obtain s1 cs1 st1 n1 where
    hs: "handle_stc c (STC_Label row) h t (s, cs, st, n) = (s1, cs1, st1, n1)"
    by (metis prod_cases4)
  from handle_stc_frame [OF hs] obtain new1 where
    new1: "s1 = s @ new1" "row_cells new1 = []" "triangles new1 = []"
    by blast
  let ?ms = "filter (\<lambda>ms. ms_Row_ID ms = Row_ID row) mss"
  from Cons.prems hs obtain s2 where
    m: "milestones_loop L c yp t ?ms (s1 @ row_shapes c yp tgw t h row) = Inr s2" and
    r: "rows_loop L c yp tgw mss rest (s2, t + h, cs1, st1, n1) = Inr (s', t', cs', st', n')"
    by (auto simp: rows_loop_Cons [OF h] simp del: rows_loop.simps split: sum.splits)
  from milestones_loop_shapes [OF m] obtain new2 where
    new2: "s2 = (s1 @ row_shapes c yp tgw t h row) @ new2" "rectangles new2 = []"
      "triangles new2 = concat (map (marker_of L yp t) ?ms)"
    by blast
  from Cons.IH [OF r] obtain hs' new3 where
    conv: "map (\<lambda>r. Inches L (Row_Height r)) rest = map Inr hs'" and
    t': "t' = t + h + sum_list hs'" and
    new3: "s' = s2 @ new3" "row_cells new3 = zip (offsets (t + h) hs') hs'"
      "triangles new3 =
        concat (map2 (\<lambda>t row. concat (map (marker_of L yp t)
                        (filter (\<lambda>m. ms_Row_ID m = Row_ID row) mss)))
                  (offsets (t + h) hs') rest)"
    by blast
  let ?new = "new1 @ row_shapes c yp tgw t h row @ new2 @ new3"
  have "map (\<lambda>r. Inches L (Row_Height r)) (row # rest) = map Inr (h # hs')"
    using h conv by simp
  moreover have "t' = t + sum_list (h # hs')" using t' by simp
  moreover have "s' = s @ ?new" using new1 new2 new3 by simp
  moreover have "row_cells ?new = zip (offsets t (h # hs')) (h # hs')"
    using new1 new2 new3 by (simp add: row_cells_no_rectangles)
  moreover have "triangles ?new =
      concat (map2 (\<lambda>t row. concat (map (marker_of L yp t)
                      (filter (\<lambda>m. ms_Row_ID m = Row_ID row) mss)))
                (offsets t (h # hs')) (row # rest))"
    using new1 new2 new3 by simp
  ultimately show ?case by blast
qed

lemma rows_loop_ok:
  assumes "yp \<noteq> []"
    and "\<forall>r \<in> set rs. \<exists>h. Inches L (Row_Height r) = Inr h"
    and "\<forall>m \<in> set mss. \<exists>v. Inches L (Vertical_Offset m) = Inr v"
  shows "\<exists>st'. rows_loop L c yp tgw mss rs st = Inr st'"
  using assms(2)
proof (induction rs arbitrary: st)
  case Nil
  show ?case by (cases st) simp
next
  case (Cons row rest)
  obtain s t cs st0 n where st: "st = (s, t, cs, st0, n)" by (cases st) auto
  from Cons.prems obtain h where h: "Inches L (Row_Height row) = Inr h" by auto
  obtain s1 cs1 st1 n1 where
    hs: "handle_stc c (STC_Label row) h t (s, cs, st0, n) = (s1, cs1, st1, n1)"
    by (metis prod_cases4)
  have "\<forall>m \<in> set (filter (\<lambda>ms. ms_Row_ID ms = Row_ID row) mss).
      \<exists>v. Inches L (Vertical_Offset m) = Inr v"
    using assms(3) by simp
  from milestones_loop_ok [OF assms(1) this] obtain s2 where
    "milestones_loop L c yp t (filter (\<lambda>ms. ms_Row_ID ms = Row_ID row) mss)
          (s1 @ row_shapes c yp tgw t h row) = Inr s2" by blast
  moreover from Cons have "\<And>st. \<exists>st'. rows_loop L c yp tgw mss rest st = Inr st'" by simp
  ultimately show ?case unfolding st
    using hs by (simp add: rows_loop_Cons [OF h] del: rows_loop.simps)
qed

lemma rows_loop_cong:
  assumes "\<And>row t s. row \<in> set rs \<Longrightarrow>
     milestones_loop L c yp t (filter (\<lambda>ms. ms_Row_ID ms = Row_ID row) msA) s =
     milestones_loop L c yp t (filter (\<lambda>ms. ms_Row_ID ms = Row_ID row) msB) s"
  shows "rows_loop L c yp tgw msA rs st = rows_loop L c yp tgw msB rs st"
  using assms
proof (induction rs arbitrary: st)
  case Nil
  show ?case by simp
next
  case (Cons row rest)
  obtain s t cs st0 n where st: "st = (s, t, cs, st0, n)" by (cases st) auto
  have IH: "\<And>st. rows_loop L c yp tgw msA rest st = rows_loop L c yp tgw msB rest st"
    using Cons by simp
  show ?case
  proof (cases "Inches L (Row_Height row)")
    case (Inl e)
    then show ?thesis unfolding st by (simp add: rows_loop_Cons_fails del: rows_loop.simps)
  next
    case (Inr h)
    show ?thesis unfolding st
      by (simp add: rows_loop_Cons [OF Inr] Cons.prems IH del: rows_loop.simps
            split: prod.splits sum.splits)
  qed
qed


lemma goals_loop_Cons:
  "goals_loop L c yp tgw rows_df mss (goal # rest) (s, t) =
     (case rows_loop L c yp tgw mss (filter (\<lambda>r. r_Goal_ID r = Goal_ID goal) rows_df)
             (s @ [TextBox 0 (Emu t) SLIDE_WIDTH Inches_0_25 (Goal_Name goal) 12 True None None
                     CENTER True],
              t + Inches_0_3, None, t + Inches_0_3, 0) of
        Inl e \<Rightarrow> Inl e
      | Inr st \<Rightarrow>
          (case final_stc L c (filter (\<lambda>r. r_Goal_ID r = Goal_ID goal) rows_df) st of
             Inl e \<Rightarrow> Inl e
           | Inr s2 \<Rightarrow> goals_loop L c yp tgw rows_df mss rest (s2, fst (snd st))))"
  by (simp add: Let_def add_text_box_def)


lemma goals_loop_cong:
  assumes "\<And>row t s. row \<in> set rows_df \<Longrightarrow>
     milestones_loop L c yp t (filter (\<lambda>ms. ms_Row_ID ms = Row_ID row) msA) s =
     milestones_loop L c yp t (filter (\<lambda>ms. ms_Row_ID ms = Row_ID row) msB) s"
  shows "goals_loop L c yp tgw rows_df msA gs st = goals_loop L c yp tgw rows_df msB gs st"
proof (induction gs arbitrary: st)
  case Nil
  show ?case by simp
next
  case (Cons goal rest)
  obtain s t where st: "st = (s, t)" by (cases st)
  have rows: "\<And>st. rows_loop L c yp tgw msA (filter (\<lambda>r. r_Goal_ID r = Goal_ID goal) rows_df) st =
      rows_loop L c yp tgw msB (filter (\<lambda>r. r_Goal_ID r = Goal_ID goal) rows_df) st"
    by (rule rows_loop_cong) (simp add: assms)
  show ?case unfolding st
    by (simp add: goals_loop_Cons rows Cons.IH del: goals_loop.simps split: sum.splits)
qed

subsection \<open>The dictionary of a timeline\<close>

lemma timeline_keys:
  "timeline_loop L c tls (s, x, []) = Inr (s', x', yp) \<Longrightarrow>
   fst ` set yp = (\<lambda>e. year_key (Year e)) ` set tls"
proof -
  assume run: "timeline_loop L c tls (s, x, []) = Inr (s', x', yp)"
  from timeline_loop_converts [OF run] obtain ws where
    conv: "map (\<lambda>e. Inches L (Width e)) tls = map Inr ws" by blast
  then have len: "length tls = length ws" by (metis length_map)
  from run have "yp = fold (\<lambda>(k, v) d. setitem d k v)
      (zip (map (\<lambda>e. year_key (Year e)) tls) (offsets x ws)) []"
    by (simp add: timeline_loop_eq [OF conv])
  moreover have "map fst (zip (map (\<lambda>e. year_key (Year e)) tls) (offsets x ws)) =
      map (\<lambda>e. year_key (Year e)) tls"
    using len by (simp add: map_fst_zip)
  then have "fst ` set (zip (map (\<lambda>e. year_key (Year e)) tls) (offsets x ws)) =
      (\<lambda>e. year_key (Year e)) ` set tls"
    by (metis set_map)
  ultimately show ?thesis by (simp add: keys_fold_setitem)
qed

lemma year_positions_of_eq:
  "map (\<lambda>e. Inches L (Width e)) tls = map Inr ws \<Longrightarrow>
   year_positions_of L c tls =
     fold (\<lambda>(k, v) d. setitem d k v)
       (zip (map (\<lambda>e. year_key (Year e)) tls) (offsets (left_margin + Inches_1_0) ws)) []"
  by (simp add: year_positions_of_def timeline_loop_eq)

lemma timeline_loop_positions:
  "timeline_loop L c tls (s, left_margin + Inches_1_0, []) = Inr (s', x', yp) \<Longrightarrow>
   yp = year_positions_of L c tls"
proof -
  assume run: "timeline_loop L c tls (s, left_margin + Inches_1_0, []) = Inr (s', x', yp)"
  from timeline_loop_converts [OF run] obtain ws where
    conv: "map (\<lambda>e. Inches L (Width e)) tls = map Inr ws" by blast
  from run show ?thesis
    by (simp add: year_positions_of_eq [OF conv] timeline_loop_eq [OF conv])
qed

lemma year_positions_keys:
  "map (\<lambda>e. Inches L (Width e)) tls = map Inr ws \<Longrightarrow>
   fst ` set (year_positions_of L c tls) = (\<lambda>e. year_key (Year e)) ` set tls"
proof -
  assume conv: "map (\<lambda>e. Inches L (Width e)) tls = map Inr ws"
  then have len: "length tls = length ws" by (metis length_map)
  have "map fst (zip (map (\<lambda>e. year_key (Year e)) tls) (offsets (left_margin + Inches_1_0) ws)) =
      map (\<lambda>e. year_key (Year e)) tls"
    using len by (simp add: map_fst_zip)
  then have "fst ` set (zip (map (\<lambda>e. year_key (Year e)) tls)
        (offsets (left_margin + Inches_1_0) ws)) =
      (\<lambda>e. year_key (Year e)) ` set tls"
    by (metis set_map)
  then show ?thesis by (simp add: year_positions_of_eq [OF conv] keys_fold_setitem)
qed

lemma year_positions_nonempty:
  "map (\<lambda>e. Inches L (Width e)) tls = map Inr ws \<Longrightarrow> tls \<noteq> [] \<Longrightarrow>
   year_positions_of L c tls \<noteq> []"
  using year_positions_keys [of L tls ws c] by auto

lemma year_positions_lookup:
  assumes conv: "map (\<lambda>e. Inches L (Width e)) tls = map Inr ws"
    and "i < length tls"
    and "year_key (Year (tls ! i)) \<notin> (\<lambda>e. year_key (Year e)) ` set (drop (Suc i) tls)"
  shows "map_of (year_positions_of L c tls) (year_key (Year (tls ! i))) =
         Some (left_margin + Inches_1_0 + sum_list (take i ws))"
proof -
  from conv have len: "length tls = length ws" by (metis length_map)
  let ?ks = "map (\<lambda>e. year_key (Year e)) tls"
  let ?os = "offsets (left_margin + Inches_1_0) ws"
  let ?ps = "zip ?ks ?os"
  have li: "i < length ?ps" using assms(2) len by simp
  have "map fst (drop (Suc i) ?ps) = drop (Suc i) ?ks"
    using len by (simp add: drop_zip map_fst_zip)
  then have "fst ` set (drop (Suc i) ?ps) = set (drop (Suc i) ?ks)"
    by (metis set_map)
  also have "\<dots> = (\<lambda>e. year_key (Year e)) ` set (drop (Suc i) tls)"
    by (simp add: drop_map)
  finally have "fst (?ps ! i) \<notin> fst ` set (drop (Suc i) ?ps)"
    using assms len by simp
  from map_of_rev_last [OF li this] assms(2) len show ?thesis
    by (simp add: year_positions_of_eq [OF conv] map_of_fold_setitem offsets_nth)
qed

lemma year_positions_distinct:
  "map (\<lambda>e. Inches L (Width e)) tls = map Inr ws \<Longrightarrow>
   distinct (map (\<lambda>e. year_key (Year e)) tls) \<Longrightarrow>
   year_positions_of L c tls =
     zip (map (\<lambda>e. year_key (Year e)) tls) (offsets (left_margin + Inches_1_0) ws)"
proof -
  assume conv: "map (\<lambda>e. Inches L (Width e)) tls = map Inr ws"
    and d: "distinct (map (\<lambda>e. year_key (Year e)) tls)"
  from conv have len: "length tls = length ws" by (metis length_map)
  with d show ?thesis
    by (simp add: year_positions_of_eq [OF conv] fold_setitem_distinct map_fst_zip)
qed

subsection \<open>Background colours\<close>

lemma lower_pink: "lower ''pink'' = ''pink''"
  by (simp add: lower_def lower_char_def)

lemma bg_color_unknown:
  "lower k \<notin> {''pink'', ''purple'', ''yellow''} \<Longrightarrow> get (bg_color_map c) (lower k) (pink c) = pink c"
  by (simp add: get_def bg_color_map_def)

lemma bg_color_pink: "get (bg_color_map c) (lower ''pink'') (pink c) = pink c"
  by (simp add: get_def bg_color_map_def lower_pink)

subsection \<open>The loops only append\<close>









section \<open>The claims\<close>

subsection \<open>C1: merged cells of the STC column\<close>

text \<open>
  Claim C1: a contiguous run of \<open>K\<close> rows with the same STC label gives one
  merged cell whose height is the sum of the heights of those \<open>K\<close> rows.

  The script multiplies one height by the length of the run: the height of the
  row that starts the next run, or, for the last run of a goal, the height of
  the first row of the goal.  For a goal with the rows \<open>STC1\<close> (1 inch) and
  \<open>STC2\<close> (2 inches), whose tops are at 1143000 and 2057400 EMU, the cell of
  \<open>STC1\<close> is 1828800 EMU high and the cell of \<open>STC2\<close> is 914400 EMU high,
  where the rows themselves are 914400 and 1828800 EMU high.
\<close>

theorem stc_cell_height_uses_other_row:
  "map_sum id stc_cells
     (create_roadmap_from_data whole_inches (workbook demo_timeline [pink_row, teal_row] [])) =
   Inr [(1143000, 1828800), (2057400, 914400)]"
  by code_simp

subsection \<open>C2: the overflow rule\<close>

text \<open>
  Claim C2 takes the overflow threshold from the timeline: the leading year of
  the flagged column or else of the last column.  With the columns \<open>2023\<close> and
  \<open>2024\<close>, the second one flagged, a milestone of the year 2026 is past the last
  column and would go to the overflow column.  The script emits nothing for it.
\<close>

theorem year_past_last_column_not_placed:
  "milestones_loop whole_inches default_colors
     (year_positions_of whole_inches default_colors short_timeline) 1143000 [ms_2026] [] = Inr []"
  by code_simp

text \<open>
  Claim C2, amended: for a timeline with at least one column and distinct keys,
  whose widths \<^verbatim>\<open>Inches\<close> converts to \<open>ws\<close>, a milestone whose year is not a
  key is placed if and only if its year is at least 2029, a constant of the
  script.  Its marker is then at \<open>X + Inches(0.3)\<close>, where \<open>X\<close> is the left
  edge of the column with the key \<open>2029\<close> or, when no column has that key, the
  left edge of the last column (and the run ends with the exception of
  \<^verbatim>\<open>Inches\<close> when the vertical offset does not convert).  Otherwise nothing
  is drawn for it.
\<close>

theorem overflow_threshold_is_2029:
  assumes ne: "tls \<noteq> []"
    and conv: "map (\<lambda>e. Inches L (Width e)) tls = map Inr ws"
    and dist: "distinct (map (\<lambda>e. year_key (Year e)) tls)"
    and nokey: "str_int (ms_Year m) \<notin> (\<lambda>e. year_key (Year e)) ` set tls"
  shows "\<exists>X. milestones_loop L colors (year_positions_of L colors tls) current_top [m] slide =
           (if 2029 \<le> ms_Year m
            then (case Inches L (Vertical_Offset m) of
                    Inl e \<Rightarrow> Inl e
                  | Inr v \<Rightarrow>
                      Inr (slide @
                        [Triangle (X + Inches_0_3) (current_top + v) Inches_0_12
                           (milestone colors),
                         TextBox (X + Inches_0_3 + Inches_0_14) (Emu (current_top + v))
                           Inches_0_9 Inches_0_15 (Text m) 7 False
                           (Some (if lower (Is_Critical m) = ''yes'' then critical colors
                                  else dark_grey))
                           None LEFT False]))
            else Inr slide) \<and>
         (\<forall>i < length tls. year_key (Year (tls ! i)) = ''2029'' \<longrightarrow>
            X = left_margin + Inches_1_0 + sum_list (take i ws)) \<and>
         (''2029'' \<notin> (\<lambda>e. year_key (Year e)) ` set tls \<longrightarrow>
            X = left_margin + Inches_1_0 + sum_list (take (length tls - 1) ws))"
proof -
  let ?yp = "year_positions_of L colors tls"
  let ?ks = "map (\<lambda>e. year_key (Year e)) tls"
  let ?os = "offsets (left_margin + Inches_1_0) ws"
  let ?X = "get (map_of ?yp) ''2029'' (snd (last ?yp))"
  from conv have len: "length tls = length ws" by (metis length_map)
  have yp: "?yp = zip ?ks ?os" using conv dist by (rule year_positions_distinct)
  have yp_ne: "?yp \<noteq> []" using conv ne by (rule year_positions_nonempty)
  have "map_of ?yp (str_int (ms_Year m)) = None"
    using nokey year_positions_keys [OF conv, of colors] by (simp add: map_of_eq_None_iff)
  from find_x_position_overflow [OF this yp_ne]
  have run: "milestones_loop L colors ?yp current_top [m] slide =
           (if 2029 \<le> ms_Year m
            then (case Inches L (Vertical_Offset m) of
                    Inl e \<Rightarrow> Inl e
                  | Inr v \<Rightarrow>
                      Inr (slide @
                        [Triangle (?X + Inches_0_3) (current_top + v) Inches_0_12
                           (milestone colors),
                         TextBox (?X + Inches_0_3 + Inches_0_14) (Emu (current_top + v))
                           Inches_0_9 Inches_0_15 (Text m) 7 False
                           (Some (if lower (Is_Critical m) = ''yes'' then critical colors
                                  else dark_grey))
                           None LEFT False]))
            else Inr slide)"
    by (simp add: milestones_loop_Cons del: milestones_loop.simps(2) split: sum.splits)
  have hit: "?X = left_margin + Inches_1_0 + sum_list (take i ws)"
    if "i < length tls" "year_key (Year (tls ! i)) = ''2029''" for i
  proof -
    have "map_of (zip ?ks ?os) (?ks ! i) = Some (?os ! i)"
      using that(1) dist len by (intro map_of_zip_nth) simp_all
    with that len show ?thesis by (simp add: yp get_def offsets_nth)
  qed
  have miss: "?X = left_margin + Inches_1_0 + sum_list (take (length tls - 1) ws)"
    if "''2029'' \<notin> (\<lambda>e. year_key (Year e)) ` set tls"
  proof -
    have none: "map_of ?yp ''2029'' = None"
      using that year_positions_keys [OF conv, of colors] by (simp add: map_of_eq_None_iff)
    have "?X = snd (last ?yp)"
      unfolding get_def none by simp
    moreover have "snd (last (zip ?ks ?os)) = ?os ! (length tls - 1)"
    proof -
      have l1: "length tls - 1 < length tls" using ne by simp
      have "zip ?ks ?os \<noteq> []" using ne len by (cases tls; cases ws) simp_all
      then have "last (zip ?ks ?os) = zip ?ks ?os ! (length tls - 1)"
        using len by (simp add: last_conv_nth)
      also have "\<dots> = (?ks ! (length tls - 1), ?os ! (length tls - 1))"
        using l1 len by (intro nth_zip) simp_all
      finally show ?thesis by simp
    qed
    moreover have "?os ! (length tls - 1) =
        left_margin + Inches_1_0 + sum_list (take (length tls - 1) ws)"
      using ne len by (intro offsets_nth) (cases ws; simp)
    ultimately show ?thesis by (simp add: yp)
  qed
  from run hit miss show ?thesis by blast
qed

text \<open>
  At the timeline \<open>2023\<close>, \<open>2024\<close>, \<open>2029-2053\<close> (1, 1 and 2 inches wide) the
  year 2031 is no key; the column with the key \<open>2029\<close> starts at 4023360 EMU.
\<close>

theorem overflow_threshold_is_2029_witness:
  "demo_timeline \<noteq> [] \<and>
   map (\<lambda>e. Inches whole_inches (Width e)) demo_timeline = map Inr [914400, 914400, 1828800] \<and>
   distinct (map (\<lambda>e. year_key (Year e)) demo_timeline) \<and>
   str_int (ms_Year ms_2031) \<notin> (\<lambda>e. year_key (Year e)) ` set demo_timeline \<and>
   milestones_loop whole_inches default_colors
     (year_positions_of whole_inches default_colors demo_timeline) 2057400 [ms_2031] [] =
   Inr [Triangle (4023360 + Inches_0_3) (2057400 + 914400) Inches_0_12 (0xF0, 0xC0, 0x40),
        TextBox (4023360 + Inches_0_3 + Inches_0_14) (Emu (2057400 + 914400)) Inches_0_9
          Inches_0_15 ''Goal text'' 7 False (Some dark_grey) None LEFT False]"
proof -
  have ne: "demo_timeline \<noteq> []" by (simp add: demo_timeline_def)
  have conv: "map (\<lambda>e. Inches whole_inches (Width e)) demo_timeline =
      map Inr [914400, 914400, 1828800]"
    by (simp add: demo_timeline_def whole_inches_def)
  have dist: "distinct (map (\<lambda>e. year_key (Year e)) demo_timeline)" by code_simp
  have nokey: "str_int (ms_Year ms_2031) \<notin> (\<lambda>e. year_key (Year e)) ` set demo_timeline"
    by code_simp
  let ?shapes = "\<lambda>X. (if 2029 \<le> ms_Year ms_2031
            then (case Inches whole_inches (Vertical_Offset ms_2031) of
                    Inl e \<Rightarrow> Inl e
                  | Inr v \<Rightarrow>
                      Inr ([] @
                        [Triangle (X + Inches_0_3) (2057400 + v) Inches_0_12
                           (milestone default_colors),
                         TextBox (X + Inches_0_3 + Inches_0_14) (Emu (2057400 + v))
                           Inches_0_9 Inches_0_15 (Text ms_2031) 7 False
                           (Some (if lower (Is_Critical ms_2031) = ''yes''
                                  then critical default_colors else dark_grey))
                           None LEFT False]))
            else Inr [])"
  from overflow_threshold_is_2029 [OF ne conv dist nokey, where colors = default_colors
      and current_top = 2057400 and slide = "[]"]
  obtain X where
    run: "milestones_loop whole_inches default_colors
        (year_positions_of whole_inches default_colors demo_timeline) 2057400 [ms_2031] [] =
      ?shapes X" and
    hit: "\<forall>i < length demo_timeline. year_key (Year (demo_timeline ! i)) = ''2029'' \<longrightarrow>
      X = left_margin + Inches_1_0 + sum_list (take i [914400, 914400, 1828800])"
    by blast
  have "(2::nat) < length demo_timeline" by (simp add: demo_timeline_def)
  moreover have "year_key (Year (demo_timeline ! 2)) = ''2029''" by code_simp
  ultimately have "X = left_margin + Inches_1_0 + sum_list (take 2 [914400, 914400, 1828800])"
    using hit by blast
  then have X: "X = 4023360" by simp
  have crit: "lower (Is_Critical ms_2031) \<noteq> ''yes''" by code_simp
  have shapes: "?shapes X =
      Inr [Triangle (4023360 + Inches_0_3) (2057400 + 914400) Inches_0_12 (0xF0, 0xC0, 0x40),
       TextBox (4023360 + Inches_0_3 + Inches_0_14) (Emu (2057400 + 914400)) Inches_0_9
         Inches_0_15 ''Goal text'' 7 False (Some dark_grey) None LEFT False]"
    using crit by (simp add: X ms_2031_def whole_inches_def default_colors_def)
  from run [unfolded shapes] ne conv dist nokey show ?thesis by blast
qed

subsection \<open>C3: a milestone on an exact column\<close>

text \<open>
  Claim C3 places a milestone whose year is the leading year of the label of a
  column at the x-offset of that column plus the fixed inset.  With the
  columns \<open>2030\<close>, \<open>2031\<close> and \<open>2030-2040\<close>, which start at 2194560, 3108960
  and 4023360 EMU, the year 2030 is the leading year of the first column, and
  the marker of a milestone of 2030 is drawn at \<open>4023360 + Inches(0.15)\<close>: line
  191 overwrites the entry of the key \<open>2030\<close> when it comes to the third
  column.  (The other two triangles of the slide belong to the legend.)
\<close>

theorem marker_not_at_first_matching_column:
  "takeWhile (\<lambda>c. c \<noteq> CHR ''-'') (Year (repeated_timeline ! 0)) = str_int (ms_Year ms_2030) \<and>
   map_sum id (\<lambda>(s, x, yp). map fst (rectangles s))
     (timeline_loop whole_inches default_colors repeated_timeline
        ([], left_margin + Inches_1_0, [])) = Inr [2194560, 3108960, 4023360] \<and>
   map_sum id triangles
     (create_roadmap_from_data whole_inches (workbook repeated_timeline [pink_row] [ms_2030])) =
     Inr [(4023360 + Inches_0_15, 1143000), (274320, 3246120), (3291840, 2788920)]"
  by code_simp

text \<open>
  Claim C3, amended: let the widths of the timeline convert to \<open>ws\<close>, let the
  year of the milestone \<open>m\<close>, printed in decimal, be the text before the first
  \<^verbatim>\<open>-\<close> of the label of column \<open>i\<close> and of no later column, and let
  \<^verbatim>\<open>Inches\<close> of its vertical offset be \<open>v\<close>.  Whenever the row loop of a goal
  returns, it has drawn one FTA cell per row, each starting where the one
  before ends, and the markers it has drawn are, row by row and in the order
  of the milestone sheet, those of the milestones with the id of the row, each
  relative to the top \<open>t\<close> of its row; the marker of \<open>m\<close> is there once for
  each row with its row id, at \<open>x\<close> = the left edge of column \<open>i\<close> plus
  \<open>Inches(0.15)\<close>, which does not depend on \<open>v\<close>, and \<open>y = t + v\<close>.
\<close>

theorem exact_year_marker_position:
  assumes conv: "map (\<lambda>e. Inches L (Width e)) tls = map Inr ws"
    and i: "i < length tls"
    and key: "takeWhile (\<lambda>c. c \<noteq> CHR ''-'') (Year (tls ! i)) = str_int (ms_Year m)"
    and later: "str_int (ms_Year m) \<notin>
                  (\<lambda>e. takeWhile (\<lambda>c. c \<noteq> CHR ''-'') (Year e)) ` set (drop (Suc i) tls)"
    and off: "Inches L (Vertical_Offset m) = Inr v"
    and run: "rows_loop L colors (year_positions_of L colors tls) tgw mss rs
                (slide, current_top, cs, st, n) = Inr (slide', top', cs', st', n')"
  shows "\<exists>new hs.
           map (\<lambda>r. Inches L (Row_Height r)) rs = map Inr hs \<and>
           slide' = slide @ new \<and>
           row_cells new = zip (offsets current_top hs) hs \<and>
           triangles new =
             concat (map2 (\<lambda>t row. concat (map (marker_of L (year_positions_of L colors tls) t)
                             (filter (\<lambda>m. ms_Row_ID m = Row_ID row) mss)))
                       (offsets current_top hs) rs) \<and>
           (\<forall>t. marker_of L (year_positions_of L colors tls) t m =
              [(left_margin + Inches_1_0 + sum_list (take i ws) + Inches_0_15, t + v)])"
proof -
  let ?yp = "year_positions_of L colors tls"
  let ?x = "left_margin + Inches_1_0 + sum_list (take i ws)"
  have "year_key (Year (tls ! i)) \<notin> (\<lambda>e. year_key (Year e)) ` set (drop (Suc i) tls)"
    using key later by (simp add: year_key_takeWhile)
  from year_positions_lookup [OF conv i this, of colors]
  have "map_of ?yp (str_int (ms_Year m)) = Some ?x"
    using key by (simp add: year_key_takeWhile)
  then have "find_x_position ?yp (ms_Year m) = Inr (Some (?x + Inches_0_15))"
    by (rule find_x_position_exact)
  then have marker: "\<forall>t. marker_of L ?yp t m = [(?x + Inches_0_15, t + v)]"
    using off by (simp add: marker_of_def)
  from rows_loop_cells [OF run] obtain hs new where
    "map (\<lambda>r. Inches L (Row_Height r)) rs = map Inr hs"
    "slide' = slide @ new"
    "row_cells new = zip (offsets current_top hs) hs"
    "triangles new =
       concat (map2 (\<lambda>t row. concat (map (marker_of L ?yp t)
                       (filter (\<lambda>m. ms_Row_ID m = Row_ID row) mss)))
                 (offsets current_top hs) rs)"
    by (elim exE conjE) (rule that)
  with marker show ?thesis by (intro exI conjI)
qed

text \<open>
  The milestone of 2029 on the two-inch row at 2057400 EMU, one inch below the
  top of the row: the column \<open>2029-2053\<close> is the third one and starts at
  \<open>2194560 + (914400 + 914400)\<close> EMU.  The milestone of 2024 belongs to the
  row before, at 1143000 EMU.
\<close>

theorem exact_year_marker_position_witness:
  "map (\<lambda>e. Inches whole_inches (Width e)) demo_timeline = map Inr [914400, 914400, 1828800] \<and>
   (2::nat) < length demo_timeline \<and>
   takeWhile (\<lambda>c. c \<noteq> CHR ''-'') (Year (demo_timeline ! 2)) = str_int (ms_Year ms_2029) \<and>
   str_int (ms_Year ms_2029) \<notin>
     (\<lambda>e. takeWhile (\<lambda>c. c \<noteq> CHR ''-'') (Year e)) ` set (drop (Suc 2) demo_timeline) \<and>
   Inches whole_inches (Vertical_Offset ms_2029) = Inr 914400 \<and>
   (\<exists>slide' top' cs' st' n'.
      rows_loop whole_inches default_colors
        (year_positions_of whole_inches default_colors demo_timeline) 3657600
        [ms_2024, ms_2029] [pink_row, teal_row] ([], 1143000, None, 1143000, 0) =
        Inr (slide', top', cs', st', n') \<and>
      row_cells slide' = [(1143000, 914400), (2057400, 1828800)] \<and>
      triangles slide' =
        [(2194560 + 914400 + Inches_0_15, 1143000),
         (2194560 + (914400 + 914400) + Inches_0_15, 2057400 + 914400)])"
proof -
  let ?yp = "year_positions_of whole_inches default_colors demo_timeline"
  have conv: "map (\<lambda>e. Inches whole_inches (Width e)) demo_timeline =
      map Inr [914400, 914400, 1828800]"
    by (simp add: demo_timeline_def whole_inches_def)
  have i: "(2::nat) < length demo_timeline" by (simp add: demo_timeline_def)
  have key: "takeWhile (\<lambda>c. c \<noteq> CHR ''-'') (Year (demo_timeline ! 2)) =
      str_int (ms_Year ms_2029)"
    by code_simp
  have later: "str_int (ms_Year ms_2029) \<notin>
      (\<lambda>e. takeWhile (\<lambda>c. c \<noteq> CHR ''-'') (Year e)) ` set (drop (Suc 2) demo_timeline)"
    by (simp add: demo_timeline_def)
  have off: "Inches whole_inches (Vertical_Offset ms_2029) = Inr 914400"
    by (simp add: ms_2029_def whole_inches_def)
  have "demo_timeline \<noteq> []" by (simp add: demo_timeline_def)
  with conv have ne: "?yp \<noteq> []" by (rule year_positions_nonempty)
  have heights: "\<forall>r \<in> set [pink_row, teal_row]. \<exists>h. Inches whole_inches (Row_Height r) = Inr h"
    by (simp add: whole_inches_def)
  have offsets: "\<forall>m \<in> set [ms_2024, ms_2029]. \<exists>v. Inches whole_inches (Vertical_Offset m) = Inr v"
    by (simp add: whole_inches_def)
  from rows_loop_ok [OF ne heights offsets] obtain st2 where
    "rows_loop whole_inches default_colors ?yp 3657600 [ms_2024, ms_2029] [pink_row, teal_row]
       ([], 1143000, None, 1143000, 0) = Inr st2"
    by blast
  then obtain slide' top' cs' st' n' where
    run: "rows_loop whole_inches default_colors ?yp 3657600 [ms_2024, ms_2029]
       [pink_row, teal_row] ([], 1143000, None, 1143000, 0) = Inr (slide', top', cs', st', n')"
    by (cases st2) auto
  from exact_year_marker_position [OF conv i key later off run]
  obtain new hs where
    hs: "map (\<lambda>r. Inches whole_inches (Row_Height r)) [pink_row, teal_row] = map Inr hs" and
    new: "slide' = [] @ new" and
    cells: "row_cells new = zip (offsets 1143000 hs) hs" and
    tri: "triangles new =
        concat (map2 (\<lambda>t row. concat (map (marker_of whole_inches ?yp t)
                        (filter (\<lambda>m. ms_Row_ID m = Row_ID row) [ms_2024, ms_2029])))
                  (offsets 1143000 hs) [pink_row, teal_row])" and
    marker: "\<forall>t. marker_of whole_inches ?yp t ms_2029 =
        [(left_margin + Inches_1_0 + sum_list (take 2 [914400, 914400, 1828800]) + Inches_0_15,
          t + 914400)]"
    by (elim exE conjE) (rule that)
  from hs have hs_eq: "hs = [914400, 1828800]"
    by (cases hs; cases "tl hs") (auto simp: pink_row_def teal_row_def whole_inches_def)
  from new have slide': "slide' = new" by simp
  have m24: "marker_of whole_inches ?yp 1143000 ms_2024 =
      [(2194560 + 914400 + Inches_0_15, 1143000)]"
    by code_simp
  from marker have m29: "marker_of whole_inches ?yp 2057400 ms_2029 =
      [(2194560 + (914400 + 914400) + Inches_0_15, 2057400 + 914400)]"
    by (simp add: numeral_2_eq_2)
  have filters: "filter (\<lambda>m. ms_Row_ID m = Row_ID pink_row) [ms_2024, ms_2029] = [ms_2024]"
    "filter (\<lambda>m. ms_Row_ID m = Row_ID teal_row) [ms_2024, ms_2029] = [ms_2029]"
    by (simp_all add: ms_2024_def ms_2029_def pink_row_def teal_row_def)
  have cells': "row_cells slide' = [(1143000, 914400), (2057400, 1828800)]"
    unfolding slide' cells hs_eq by simp
  have tri': "triangles slide' =
      [(2194560 + 914400 + Inches_0_15, 1143000),
       (2194560 + (914400 + 914400) + Inches_0_15, 2057400 + 914400)]"
    unfolding slide' tri hs_eq by (simp add: filters m24 m29 del: filter.simps)
  have "rows_loop whole_inches default_colors ?yp 3657600 [ms_2024, ms_2029]
       [pink_row, teal_row] ([], 1143000, None, 1143000, 0) = Inr (slide', top', cs', st', n') \<and>
      row_cells slide' = [(1143000, 914400), (2057400, 1828800)] \<and>
      triangles slide' =
        [(2194560 + 914400 + Inches_0_15, 1143000),
         (2194560 + (914400 + 914400) + Inches_0_15, 2057400 + 914400)]"
    using run cells' tri' by (intro conjI)
  then have "\<exists>slide' top' cs' st' n'.
      rows_loop whole_inches default_colors ?yp 3657600 [ms_2024, ms_2029]
       [pink_row, teal_row] ([], 1143000, None, 1143000, 0) = Inr (slide', top', cs', st', n') \<and>
      row_cells slide' = [(1143000, 914400), (2057400, 1828800)] \<and>
      triangles slide' =
        [(2194560 + 914400 + Inches_0_15, 1143000),
         (2194560 + (914400 + 914400) + Inches_0_15, 2057400 + 914400)]"
    by (intro exI)
  with conv i key later off show ?thesis by (intro conjI)
qed

subsection \<open>C4: milestones that cannot be placed\<close>

text \<open>
  Claim C4 has a warning recorded for every milestone that is skipped, in a
  list returned with the draw commands.  The script returns the presentation
  and nothing else.  With the milestone of 1999, which is before the first
  column and is skipped, it returns exactly what it returns without it: the
  result holds no record of the skipped milestone.
\<close>

theorem skipped_milestone_leaves_no_trace:
  "create_roadmap_from_data whole_inches (workbook demo_timeline [pink_row, teal_row] [ms_1999]) =
   create_roadmap_from_data whole_inches (workbook demo_timeline [pink_row, teal_row] [])"
  by code_simp

text \<open>
  Claim C4, amended: a milestone whose year is no column key and is below
  2029, or whose row id is the id of no row, is skipped without any report: the
  script returns, for a workbook with this milestone anywhere in the milestone
  sheet, what it returns for the workbook without it, be that a slide or an
  exception raised for another reason.
\<close>

theorem unplaceable_milestone_dropped_silently:
  assumes "(str_int (ms_Year m) \<notin> (\<lambda>e. year_key (Year e)) ` set (d_timeline d) \<and> ms_Year m < 2029)
           \<or> (\<forall>r \<in> set (d_rows d). Row_ID r \<noteq> ms_Row_ID m)"
  shows "create_roadmap_from_data L (d\<lparr>d_milestones := before @ m # after\<rparr>) =
         create_roadmap_from_data L (d\<lparr>d_milestones := before @ after\<rparr>)"
proof -
  have goals: "goals_loop L c yp tgw (d_rows d) (before @ m # after) gs st =
        goals_loop L c yp tgw (d_rows d) (before @ after) gs st"
    if yp: "timeline_loop L c (d_timeline d) (s0, x0, []) = Inr (s1, x1, yp)"
    for c s0 x0 s1 x1 yp tgw gs st
  proof (rule goals_loop_cong)
    fix row t s
    assume row: "row \<in> set (d_rows d)"
    have "find_x_position yp (ms_Year m) = Inr None \<or> \<not> ms_Row_ID m = Row_ID row"
      using assms row timeline_keys [OF yp] find_x_position_skip [of "ms_Year m" yp] by auto
    then show "milestones_loop L c yp t
          (filter (\<lambda>ms. ms_Row_ID ms = Row_ID row) (before @ m # after)) s =
        milestones_loop L c yp t (filter (\<lambda>ms. ms_Row_ID ms = Row_ID row) (before @ after)) s"
      by (rule filter_skip)
  qed
  show ?thesis
  proof (cases "parse_colors L (d_settings d)")
    case (Inl e)
    then show ?thesis by (simp add: create_roadmap_from_data_def Let_def bind_def)
  next
    case (Inr c)
    let ?s0 = "[Rectangle 0 0 SLIDE_WIDTH SLIDE_HEIGHT (Some (0xe0, 0xe0, 0xd0)) None,
        TextBox 0 (Emu Inches_0_15) SLIDE_WIDTH Inches_0_5
          (py_str (get (d_settings d) ''Title'' (Str ''Roadmap''))) 24 True None None CENTER True,
        Rectangle left_margin header_top Inches_1_0 header_height (Some (navy c)) None,
        TextBox left_margin (Emu header_top) Inches_1_0 header_height fiscal_years_label 9 True
          (Some white) None CENTER False]"
    show ?thesis
    proof (cases "timeline_loop L c (d_timeline d) (?s0, left_margin + Inches_1_0, [])")
      case (Inl e)
      with Inr show ?thesis
        by (simp add: create_roadmap_from_data_def Let_def bind_def add_text_box_def
              add_rectangle_def)
    next
      case tl: (Inr r)
      obtain s1 x1 yp where r: "r = (s1, x1, yp)" by (cases r)
      from tl Inr goals [OF tl [unfolded r]] show ?thesis
        by (simp add: create_roadmap_from_data_def Let_def bind_def add_text_box_def
              add_rectangle_def r)
    qed
  qed
qed

text \<open>
  Two instances: a milestone for the row id 7, which no row has, between two
  milestones that are drawn; and the milestone of 1999 after one that is drawn.
\<close>

theorem unplaceable_milestone_dropped_silently_witness:
  "list_all (\<lambda>r. Row_ID r \<noteq> ms_Row_ID ms_no_row)
     (d_rows (workbook demo_timeline [pink_row, teal_row] [])) \<and>
   create_roadmap_from_data whole_inches
     (workbook demo_timeline [pink_row, teal_row] []
        \<lparr>d_milestones := [ms_2024] @ ms_no_row # [ms_2031]\<rparr>) =
   create_roadmap_from_data whole_inches
     (workbook demo_timeline [pink_row, teal_row] [] \<lparr>d_milestones := [ms_2024] @ [ms_2031]\<rparr>) \<and>
   str_int (ms_Year ms_1999) \<notin>
     (\<lambda>e. year_key (Year e)) ` set (d_timeline (workbook demo_timeline [pink_row, teal_row] [])) \<and>
   ms_Year ms_1999 < 2029 \<and>
   create_roadmap_from_data whole_inches
     (workbook demo_timeline [pink_row, teal_row] [] \<lparr>d_milestones := [ms_2024] @ ms_1999 # []\<rparr>) =
   create_roadmap_from_data whole_inches
     (workbook demo_timeline [pink_row, teal_row] [] \<lparr>d_milestones := [ms_2024] @ []\<rparr>)"
proof -
  let ?d = "workbook demo_timeline [pink_row, teal_row] []"
  have no_row: "\<forall>r \<in> set (d_rows ?d). Row_ID r \<noteq> ms_Row_ID ms_no_row" by code_simp
  have no_key: "str_int (ms_Year ms_1999) \<notin> (\<lambda>e. year_key (Year e)) ` set (d_timeline ?d)"
    by code_simp
  have early: "ms_Year ms_1999 < 2029" by (simp add: ms_1999_def)
  have a: "(str_int (ms_Year ms_no_row) \<notin> (\<lambda>e. year_key (Year e)) ` set (d_timeline ?d)
        \<and> ms_Year ms_no_row < 2029)
      \<or> (\<forall>r \<in> set (d_rows ?d). Row_ID r \<noteq> ms_Row_ID ms_no_row)"
    using no_row by blast
  have b: "(str_int (ms_Year ms_1999) \<notin> (\<lambda>e. year_key (Year e)) ` set (d_timeline ?d)
        \<and> ms_Year ms_1999 < 2029)
      \<or> (\<forall>r \<in> set (d_rows ?d). Row_ID r \<noteq> ms_Row_ID ms_1999)"
    using no_key early by blast
  from no_row have no_row':
    "list_all (\<lambda>r. Row_ID r \<noteq> ms_Row_ID ms_no_row) (d_rows ?d)"
    by (simp add: list_all_iff)
  from unplaceable_milestone_dropped_silently [OF a, of whole_inches "[ms_2024]" "[ms_2031]"]
    unplaceable_milestone_dropped_silently [OF b, of whole_inches "[ms_2024]" "[]"]
    no_row' no_key early
  show ?thesis by (intro conjI)
qed

subsection \<open>C5: the timeline columns\<close>

text \<open>
  Claim C5 has strictly increasing left edges whenever all widths are
  positive.  The script advances \<^verbatim>\<open>x_pos\<close> by \<^verbatim>\<open>Inches(width)\<close>, a whole
  number of EMU, and \<^verbatim>\<open>int\<close> truncates: a width of one millionth of an inch
  is positive and converts to 0.  Two columns of that width are both drawn at
  2194560 EMU.
\<close>

theorem positive_widths_same_left_edge:
  "list_all (\<lambda>e. 0 < Width e) tiny_timeline \<and>
   map_sum id (\<lambda>(s, x, yp). map fst (rectangles s))
     (timeline_loop truncating_inches default_colors tiny_timeline
        ([], left_margin + Inches_1_0, [])) = Inr [2194560, 2194560]"
  by code_simp

text \<open>
  Claim C5, amended: when \<^verbatim>\<open>Inches\<close> converts the widths of the timeline
  entries to \<open>ws\<close> and each of these is at least one EMU, the timeline loop
  returns; the header cells are drawn in entry order with the widths \<open>ws\<close>,
  their left edges are strictly increasing, each left edge is the start plus
  the widths before it, and the widths add up to \<^verbatim>\<open>total_grid_width\<close>.  The
  keys of \<^verbatim>\<open>year_positions\<close> are the labels cut before their first \<^verbatim>\<open>-\<close>,
  and the key of a column maps to the left edge of that column, provided no
  later column has the same key.
\<close>

theorem columns_increasing_and_exact:
  assumes conv: "map (\<lambda>e. Inches L (Width e)) tls = map Inr ws"
    and pos: "\<forall>w \<in> set ws. 0 < w"
  shows "\<exists>new x_pos year_positions.
           timeline_loop L colors tls (slide, left_margin + Inches_1_0, []) =
             Inr (slide @ new, x_pos, year_positions) \<and>
           map (\<lambda>(l, t, w, h). w) (rectangles new) = ws \<and>
           sorted_wrt (<) (map (\<lambda>(l, t, w, h). l) (rectangles new)) \<and>
           (\<forall>i < length tls. fst (rectangles new ! i) =
              left_margin + Inches_1_0 + sum_list (take i ws)) \<and>
           sum_list (map (\<lambda>(l, t, w, h). w) (rectangles new)) =
              x_pos - left_margin - Inches_1_0 \<and>
           fst ` set year_positions = (\<lambda>e. takeWhile (\<lambda>c. c \<noteq> CHR ''-'') (Year e)) ` set tls \<and>
           (\<forall>i < length tls.
              takeWhile (\<lambda>c. c \<noteq> CHR ''-'') (Year (tls ! i)) \<notin>
                (\<lambda>e. takeWhile (\<lambda>c. c \<noteq> CHR ''-'') (Year e)) ` set (drop (Suc i) tls) \<longrightarrow>
              map_of year_positions (takeWhile (\<lambda>c. c \<noteq> CHR ''-'') (Year (tls ! i))) =
                Some (fst (rectangles new ! i)))"
proof -
  let ?x0 = "left_margin + Inches_1_0"
  let ?os = "offsets ?x0 ws"
  let ?new = "concat (map2 (header_cell colors) (zip ?os ws) tls)"
  let ?cells = "map (\<lambda>(x, w). (x, header_top, w, header_height)) (zip ?os ws)"
  let ?yp = "year_positions_of L colors tls"
  from conv have len: "length tls = length ws" by (metis length_map)
  have run: "timeline_loop L colors tls (slide, ?x0, []) =
      Inr (slide @ ?new, ?x0 + sum_list ws, ?yp)"
    by (simp add: timeline_loop_eq [OF conv] year_positions_of_eq [OF conv])
  have cells: "rectangles ?new = ?cells"
    using len by (rule rectangles_header_cells)
  have widths: "map (\<lambda>(l, t, w, h). w) ?cells = ws"
    by (simp add: comp_def case_prod_beta map_snd_zip [unfolded comp_def])
  have lefts: "map (\<lambda>(l, t, w, h). l) ?cells = ?os"
    by (simp add: comp_def case_prod_beta map_fst_zip [unfolded comp_def])
  have sorted: "sorted_wrt (<) ?os"
    using pos by (rule offsets_increasing)
  have nth: "\<forall>i < length tls. fst (?cells ! i) = ?x0 + sum_list (take i ws)"
    using len by (simp add: offsets_nth)
  have keys: "fst ` set ?yp = (\<lambda>e. takeWhile (\<lambda>c. c \<noteq> CHR ''-'') (Year e)) ` set tls"
    by (simp add: year_positions_keys [OF conv] year_key_takeWhile)
  have lookup: "\<forall>i < length tls.
      takeWhile (\<lambda>c. c \<noteq> CHR ''-'') (Year (tls ! i)) \<notin>
        (\<lambda>e. takeWhile (\<lambda>c. c \<noteq> CHR ''-'') (Year e)) ` set (drop (Suc i) tls) \<longrightarrow>
      map_of ?yp (takeWhile (\<lambda>c. c \<noteq> CHR ''-'') (Year (tls ! i))) = Some (fst (?cells ! i))"
    using year_positions_lookup [OF conv, of _ colors] len
    by (simp add: offsets_nth year_key_takeWhile)
  show ?thesis
  proof (intro exI conjI)
    show "timeline_loop L colors tls (slide, ?x0, []) =
        Inr (slide @ ?new, ?x0 + sum_list ws, ?yp)"
      by (rule run)
    show "map (\<lambda>(l, t, w, h). w) (rectangles ?new) = ws"
      unfolding cells by (rule widths)
    show "sorted_wrt (<) (map (\<lambda>(l, t, w, h). l) (rectangles ?new))"
      unfolding cells lefts by (rule sorted)
    show "\<forall>i < length tls. fst (rectangles ?new ! i) = ?x0 + sum_list (take i ws)"
      unfolding cells by (rule nth)
    show "sum_list (map (\<lambda>(l, t, w, h). w) (rectangles ?new)) =
        ?x0 + sum_list ws - left_margin - Inches_1_0"
      unfolding cells widths by simp
    show "fst ` set ?yp = (\<lambda>e. takeWhile (\<lambda>c. c \<noteq> CHR ''-'') (Year e)) ` set tls"
      by (rule keys)
    show "\<forall>i < length tls.
        takeWhile (\<lambda>c. c \<noteq> CHR ''-'') (Year (tls ! i)) \<notin>
          (\<lambda>e. takeWhile (\<lambda>c. c \<noteq> CHR ''-'') (Year e)) ` set (drop (Suc i) tls) \<longrightarrow>
        map_of ?yp (takeWhile (\<lambda>c. c \<noteq> CHR ''-'') (Year (tls ! i))) =
          Some (fst (rectangles ?new ! i))"
      unfolding cells by (rule lookup)
  qed
qed

text \<open>
  The timeline \<open>2023\<close>, \<open>2024\<close>, \<open>2029-2053\<close> of 1, 1 and 2 inches, drawn on an
  empty slide; the third label has the key \<open>2029\<close>.
\<close>

theorem columns_increasing_and_exact_witness:
  "map (\<lambda>e. Inches whole_inches (Width e)) demo_timeline = map Inr [914400, 914400, 1828800] \<and>
   list_all (\<lambda>w. 0 < w) [914400, 914400, 1828800 :: int] \<and>
   (2::nat) < length demo_timeline \<and>
   takeWhile (\<lambda>c. c \<noteq> CHR ''-'') (Year (demo_timeline ! 2)) \<notin>
     (\<lambda>e. takeWhile (\<lambda>c. c \<noteq> CHR ''-'') (Year e)) ` set (drop (Suc 2) demo_timeline) \<and>
   (\<exists>slide' x_pos year_positions.
      timeline_loop whole_inches default_colors demo_timeline
        ([], left_margin + Inches_1_0, []) = Inr (slide', x_pos, year_positions) \<and>
      map (\<lambda>(l, t, w, h). w) (rectangles slide') = [914400, 914400, 1828800] \<and>
      sorted_wrt (<) (map (\<lambda>(l, t, w, h). l) (rectangles slide')) \<and>
      fst (rectangles slide' ! 2) = left_margin + Inches_1_0 + (914400 + 914400) \<and>
      sum_list (map (\<lambda>(l, t, w, h). w) (rectangles slide')) = x_pos - left_margin - Inches_1_0 \<and>
      map_of year_positions ''2029'' = Some (fst (rectangles slide' ! 2)))"
proof -
  have conv: "map (\<lambda>e. Inches whole_inches (Width e)) demo_timeline =
      map Inr [914400, 914400, 1828800]"
    by (simp add: demo_timeline_def whole_inches_def)
  have pos: "\<forall>w \<in> set [914400, 914400, 1828800 :: int]. 0 < w" by simp
  have i: "(2::nat) < length demo_timeline" by (simp add: demo_timeline_def)
  have last_key: "takeWhile (\<lambda>c. c \<noteq> CHR ''-'') (Year (demo_timeline ! 2)) \<notin>
      (\<lambda>e. takeWhile (\<lambda>c. c \<noteq> CHR ''-'') (Year e)) ` set (drop (Suc 2) demo_timeline)"
    by (simp add: demo_timeline_def)
  have key: "takeWhile (\<lambda>c. c \<noteq> CHR ''-'') (Year (demo_timeline ! 2)) = ''2029''"
    by (simp add: demo_timeline_def)
  have two: "sum_list (take 2 [914400, 914400, 1828800 :: int]) = 914400 + 914400"
    by (simp add: numeral_2_eq_2)
  from columns_increasing_and_exact [OF conv pos, where colors = default_colors and slide = "[]"]
  obtain new x_pos year_positions where
    run: "timeline_loop whole_inches default_colors demo_timeline
        ([], left_margin + Inches_1_0, []) = Inr ([] @ new, x_pos, year_positions)" and
    w: "map (\<lambda>(l, t, w, h). w) (rectangles new) = [914400, 914400, 1828800]" and
    srt: "sorted_wrt (<) (map (\<lambda>(l, t, w, h). l) (rectangles new))" and
    nth: "\<forall>i < length demo_timeline. fst (rectangles new ! i) =
      left_margin + Inches_1_0 + sum_list (take i [914400, 914400, 1828800])" and
    total: "sum_list (map (\<lambda>(l, t, w, h). w) (rectangles new)) = x_pos - left_margin - Inches_1_0" and
    look: "\<forall>i < length demo_timeline.
      takeWhile (\<lambda>c. c \<noteq> CHR ''-'') (Year (demo_timeline ! i)) \<notin>
        (\<lambda>e. takeWhile (\<lambda>c. c \<noteq> CHR ''-'') (Year e)) ` set (drop (Suc i) demo_timeline) \<longrightarrow>
      map_of year_positions (takeWhile (\<lambda>c. c \<noteq> CHR ''-'') (Year (demo_timeline ! i))) =
        Some (fst (rectangles new ! i))"
    by (elim exE conjE) (rule that)
  have run': "timeline_loop whole_inches default_colors demo_timeline
        ([], left_margin + Inches_1_0, []) = Inr (new, x_pos, year_positions)"
    using run unfolding append_Nil .
  from nth i have "fst (rectangles new ! 2) =
      left_margin + Inches_1_0 + sum_list (take 2 [914400, 914400, 1828800])"
    by blast
  then have third: "fst (rectangles new ! 2) = left_margin + Inches_1_0 + (914400 + 914400)"
    unfolding two .
  from look i last_key have "map_of year_positions
      (takeWhile (\<lambda>c. c \<noteq> CHR ''-'') (Year (demo_timeline ! 2))) =
      Some (fst (rectangles new ! 2))"
    by blast
  then have found: "map_of year_positions ''2029'' = Some (fst (rectangles new ! 2))"
    unfolding key .
  have "timeline_loop whole_inches default_colors demo_timeline
        ([], left_margin + Inches_1_0, []) = Inr (new, x_pos, year_positions) \<and>
      map (\<lambda>(l, t, w, h). w) (rectangles new) = [914400, 914400, 1828800] \<and>
      sorted_wrt (<) (map (\<lambda>(l, t, w, h). l) (rectangles new)) \<and>
      fst (rectangles new ! 2) = left_margin + Inches_1_0 + (914400 + 914400) \<and>
      sum_list (map (\<lambda>(l, t, w, h). w) (rectangles new)) = x_pos - left_margin - Inches_1_0 \<and>
      map_of year_positions ''2029'' = Some (fst (rectangles new ! 2))"
    using run' w srt third total found by (intro conjI)
  then have "\<exists>slide' x_pos year_positions.
      timeline_loop whole_inches default_colors demo_timeline
        ([], left_margin + Inches_1_0, []) = Inr (slide', x_pos, year_positions) \<and>
      map (\<lambda>(l, t, w, h). w) (rectangles slide') = [914400, 914400, 1828800] \<and>
      sorted_wrt (<) (map (\<lambda>(l, t, w, h). l) (rectangles slide')) \<and>
      fst (rectangles slide' ! 2) = left_margin + Inches_1_0 + (914400 + 914400) \<and>
      sum_list (map (\<lambda>(l, t, w, h). w) (rectangles slide')) = x_pos - left_margin - Inches_1_0 \<and>
      map_of year_positions ''2029'' = Some (fst (rectangles slide' ! 2))"
    by (intro exI)
  moreover from pos have "list_all (\<lambda>w. 0 < w) [914400, 914400, 1828800 :: int]"
    by simp
  ultimately show ?thesis using conv i last_key by (intro conjI)
qed

subsection \<open>C6: the rows of a goal\<close>

text \<open>
  Claim C6: whenever the row loop returns for the rows of a goal,
  \<^verbatim>\<open>Inches\<close> has converted the heights of the rows, to \<open>hs\<close>, and the loop has
  drawn one FTA cell per row, in order, with these heights; the first cell is
  at the top the loop started with, every further cell starts where the one
  before ends, and \<^verbatim>\<open>current_top\<close> has advanced by the sum of the heights.
\<close>

theorem rows_stack_without_gaps:
  assumes "rows_loop L colors yp tgw mss rs (slide, current_top, cs, st, n) =
             Inr (slide', top', cs', st', n')"
  shows "\<exists>new hs. map (\<lambda>r. Inches L (Row_Height r)) rs = map Inr hs \<and>
           slide' = slide @ new \<and>
           map snd (row_cells new) = hs \<and>
           top' = current_top + sum_list hs \<and>
           sum_list (map snd (row_cells new)) = sum_list hs \<and>
           (\<forall>i < length rs. fst (row_cells new ! i) = current_top + sum_list (take i hs)) \<and>
           (\<forall>i. Suc i < length rs \<longrightarrow>
              fst (row_cells new ! Suc i) = fst (row_cells new ! i) + snd (row_cells new ! i))"
proof -
  from rows_loop_cells [OF assms] obtain hs new where
    conv: "map (\<lambda>r. Inches L (Row_Height r)) rs = map Inr hs" and
    top': "top' = current_top + sum_list hs" and
    new: "slide' = slide @ new" "row_cells new = zip (offsets current_top hs) hs"
    by (elim exE conjE) (rule that)
  from conv have len: "length rs = length hs" by (metis length_map)
  have abut: "fst (zip (offsets current_top hs) hs ! Suc i) =
      fst (zip (offsets current_top hs) hs ! i) + snd (zip (offsets current_top hs) hs ! i)"
    if "Suc i < length rs" for i
    using that len by (simp add: offsets_nth take_Suc_conv_app_nth)
  have "map snd (row_cells new) = hs \<and>
      sum_list (map snd (row_cells new)) = sum_list hs \<and>
      (\<forall>i < length rs. fst (row_cells new ! i) = current_top + sum_list (take i hs)) \<and>
      (\<forall>i. Suc i < length rs \<longrightarrow>
         fst (row_cells new ! Suc i) = fst (row_cells new ! i) + snd (row_cells new ! i))"
    using abut len by (simp add: new offsets_nth)
  with conv top' new(1) show ?thesis by blast
qed

text \<open>
  The rows of 1 and 2 inches, starting at 1143000 EMU: the loop returns, the
  cursor ends at \<open>1143000 + (914400 + 1828800)\<close>, and the second cell starts
  where the first one ends.
\<close>

theorem rows_stack_without_gaps_witness:
  "\<exists>slide' cs' st' n'.
     rows_loop whole_inches default_colors
       (year_positions_of whole_inches default_colors demo_timeline) 3657600
       [ms_2024, ms_2031] [pink_row, teal_row] ([], 1143000, None, 1143000, 0) =
       Inr (slide', 1143000 + (914400 + 1828800), cs', st', n') \<and>
     map snd (row_cells slide') = [914400, 1828800] \<and>
     fst (row_cells slide' ! 0) = 1143000 \<and>
     fst (row_cells slide' ! Suc 0) = fst (row_cells slide' ! 0) + snd (row_cells slide' ! 0)"
proof -
  let ?yp = "year_positions_of whole_inches default_colors demo_timeline"
  have conv: "map (\<lambda>e. Inches whole_inches (Width e)) demo_timeline =
      map Inr [914400, 914400, 1828800]"
    by (simp add: demo_timeline_def whole_inches_def)
  have "demo_timeline \<noteq> []" by (simp add: demo_timeline_def)
  with conv have ne: "?yp \<noteq> []" by (rule year_positions_nonempty)
  have heights: "\<forall>r \<in> set [pink_row, teal_row]. \<exists>h. Inches whole_inches (Row_Height r) = Inr h"
    by (simp add: whole_inches_def)
  have offs: "\<forall>m \<in> set [ms_2024, ms_2031]. \<exists>v. Inches whole_inches (Vertical_Offset m) = Inr v"
    by (simp add: whole_inches_def)
  from rows_loop_ok [OF ne heights offs] obtain st2 where
    "rows_loop whole_inches default_colors ?yp 3657600 [ms_2024, ms_2031] [pink_row, teal_row]
       ([], 1143000, None, 1143000, 0) = Inr st2"
    by blast
  then obtain slide' top' cs' st' n' where
    run: "rows_loop whole_inches default_colors ?yp 3657600 [ms_2024, ms_2031]
       [pink_row, teal_row] ([], 1143000, None, 1143000, 0) = Inr (slide', top', cs', st', n')"
    by (cases st2) auto
  from rows_stack_without_gaps [OF run]
  obtain new hs where
    hs: "map (\<lambda>r. Inches whole_inches (Row_Height r)) [pink_row, teal_row] = map Inr hs" and
    new: "slide' = [] @ new" and
    cells: "map snd (row_cells new) = hs" and
    top': "top' = 1143000 + sum_list hs" and
    nth: "\<forall>i < length [pink_row, teal_row].
      fst (row_cells new ! i) = 1143000 + sum_list (take i hs)" and
    abut: "\<forall>i. Suc i < length [pink_row, teal_row] \<longrightarrow>
      fst (row_cells new ! Suc i) = fst (row_cells new ! i) + snd (row_cells new ! i)"
    by (elim exE conjE) (rule that)
  from hs have hs_eq: "hs = [914400, 1828800]"
    by (cases hs; cases "tl hs") (auto simp: pink_row_def teal_row_def whole_inches_def)
  from new have slide': "slide' = new" by simp
  from top' have top'': "top' = 1143000 + (914400 + 1828800)" by (simp add: hs_eq)
  from cells have cells': "map snd (row_cells new) = [914400, 1828800]" by (simp add: hs_eq)
  from nth have first: "fst (row_cells new ! 0) = 1143000" by simp
  from abut have second: "fst (row_cells new ! Suc 0) =
      fst (row_cells new ! 0) + snd (row_cells new ! 0)"
    by simp
  have "rows_loop whole_inches default_colors ?yp 3657600 [ms_2024, ms_2031]
       [pink_row, teal_row] ([], 1143000, None, 1143000, 0) =
       Inr (slide', 1143000 + (914400 + 1828800), cs', st', n') \<and>
     map snd (row_cells slide') = [914400, 1828800] \<and>
     fst (row_cells slide' ! 0) = 1143000 \<and>
     fst (row_cells slide' ! Suc 0) = fst (row_cells slide' ! 0) + snd (row_cells slide' ! 0)"
    using run [unfolded top''] cells' first second unfolding slide' by (intro conjI)
  then show ?thesis by (intro exI)
qed

subsection \<open>C7: structural violations\<close>




subsection \<open>C8: determinism\<close>

text \<open>
  Claim C8 (two runs on the same input give the same draw commands) is not a
  statement about a function of the input: every definition above is one, so
  in this model the claim is an instance of reflexivity and says nothing about
  the script.  No theorem is given for it.
\<close>

subsection \<open>C9: the column ``Is Last Column''\<close>

text \<open>
  Claim C9: the result of the script does not depend on the column
  \<^verbatim>\<open>Is Last Column\<close>: two timelines that agree entry by entry on \<^verbatim>\<open>Year\<close>
  and on the width give the same result, slide or exception, in any workbook.
  The overflow decision is made with the constant 2029: a year that is no key
  is skipped below 2029, and from 2029 on it is placed \<open>Inches(0.3)\<close> right of
  the position recorded for the key \<open>2029\<close> or, when there is no such key, of
  the last position in the dictionary (an empty dictionary raises
  \<^verbatim>\<open>IndexError\<close>).
\<close>

theorem is_last_column_never_read:
  "(list_all2 (\<lambda>a b. Year a = Year b \<and> Width a = Width b) tl1 tl2 \<longrightarrow>
      create_roadmap_from_data L (d\<lparr>d_timeline := tl1\<rparr>) =
      create_roadmap_from_data L (d\<lparr>d_timeline := tl2\<rparr>)) \<and>
   find_x_position yp y =
     (case map_of yp (str_int y) of
        Some x \<Rightarrow> Inr (Some (x + Inches_0_15))
      | None \<Rightarrow>
          if y < 2029 then Inr None
          else if yp = [] then Inl IndexError
          else Inr (Some (get (map_of yp) ''2029'' (snd (last yp)) + Inches_0_3)))"
proof
  show "list_all2 (\<lambda>a b. Year a = Year b \<and> Width a = Width b) tl1 tl2 \<longrightarrow>
      create_roadmap_from_data L (d\<lparr>d_timeline := tl1\<rparr>) =
      create_roadmap_from_data L (d\<lparr>d_timeline := tl2\<rparr>)"
  proof
    assume "list_all2 (\<lambda>a b. Year a = Year b \<and> Width a = Width b) tl1 tl2"
    then have "timeline_loop L c tl1 st = timeline_loop L c tl2 st" for c st
      by (rule timeline_loop_cong)
    then show "create_roadmap_from_data L (d\<lparr>d_timeline := tl1\<rparr>) =
      create_roadmap_from_data L (d\<lparr>d_timeline := tl2\<rparr>)"
      by (simp add: create_roadmap_from_data_def)
  qed
next
  show "find_x_position yp y =
     (case map_of yp (str_int y) of
        Some x \<Rightarrow> Inr (Some (x + Inches_0_15))
      | None \<Rightarrow>
          if y < 2029 then Inr None
          else if yp = [] then Inl IndexError
          else Inr (Some (get (map_of yp) ''2029'' (snd (last yp)) + Inches_0_3)))"
    by (cases yp) (auto simp: find_x_position_def last_value_def bind_def split: option.splits)
qed

text \<open>
  The timeline \<open>2023\<close>, \<open>2024\<close>, \<open>2029-2053\<close> with the flags set to
  \<open>No\<close>, \<open>No\<close>, \<open>Yes\<close> and with the flags set to \<open>Yes\<close>, \<open>Yes\<close>, \<open>No\<close>.
\<close>

theorem is_last_column_never_read_witness:
  "list_all2 (\<lambda>a b. Year a = Year b \<and> Width a = Width b) demo_timeline relabelled_timeline \<and>
   map Is_Last_Column demo_timeline \<noteq> map Is_Last_Column relabelled_timeline \<and>
   create_roadmap_from_data whole_inches
     (workbook [] [pink_row, teal_row] [ms_2024, ms_2031] \<lparr>d_timeline := demo_timeline\<rparr>) =
   create_roadmap_from_data whole_inches
     (workbook [] [pink_row, teal_row] [ms_2024, ms_2031] \<lparr>d_timeline := relabelled_timeline\<rparr>)"
proof -
  have same: "list_all2 (\<lambda>a b. Year a = Year b \<and> Width a = Width b)
      demo_timeline relabelled_timeline"
    by (simp add: demo_timeline_def relabelled_timeline_def)
  have differ: "map Is_Last_Column demo_timeline \<noteq> map Is_Last_Column relabelled_timeline"
    by (simp add: demo_timeline_def relabelled_timeline_def)
  from is_last_column_never_read [where ?tl1.0 = demo_timeline and ?tl2.0 = relabelled_timeline
      and L = whole_inches and d = "workbook [] [pink_row, teal_row] [ms_2024, ms_2031]",
      THEN conjunct1, rule_format, OF same]
    same differ
  show ?thesis by (intro conjI)
qed

subsection \<open>C10: unknown background colours\<close>

text \<open>
  Claim C10: a row whose background colour, in lower case, is none of
  \<open>pink\<close>, \<open>purple\<close> and \<open>yellow\<close> is drawn exactly as the same row with the
  colour \<open>pink\<close> is (so the unknown name raises nothing), and whenever the row
  loop returns, the slide holds the background rectangle of the row, as high
  as \<^verbatim>\<open>Inches\<close> of the height of the row, filled with the pink of the
  settings.
\<close>

theorem unknown_background_is_pink:
  assumes "lower (Background_Color row) \<notin> {''pink'', ''purple'', ''yellow''}"
  shows "rows_loop L colors yp tgw mss (row # rest) (slide, current_top, cs, st, n) =
         rows_loop L colors yp tgw mss (row\<lparr>Background_Color := ''pink''\<rparr> # rest)
           (slide, current_top, cs, st, n) \<and>
         (\<forall>slide' top' cs' st' n'.
            rows_loop L colors yp tgw mss (row # rest) (slide, current_top, cs, st, n) =
              Inr (slide', top', cs', st', n') \<longrightarrow>
            (\<exists>h. Inches L (Row_Height row) = Inr h \<and>
               Rectangle left_margin current_top (tgw + Inches_1_0) h (Some (pink colors)) None
                 \<in> set slide'))"
proof
  have shapes: "row_shapes colors yp tgw current_top h (row\<lparr>Background_Color := ''pink''\<rparr>) =
        row_shapes colors yp tgw current_top h row" for h
    using bg_color_unknown [OF assms, of colors] bg_color_pink [of colors]
    by (simp add: row_shapes_def)
  show "rows_loop L colors yp tgw mss (row # rest) (slide, current_top, cs, st, n) =
         rows_loop L colors yp tgw mss (row\<lparr>Background_Color := ''pink''\<rparr> # rest)
           (slide, current_top, cs, st, n)"
  proof (cases "Inches L (Row_Height row)")
    case (Inl e)
    then show ?thesis by (simp add: rows_loop_Cons_fails del: rows_loop.simps)
  next
    case (Inr h)
    then have "Inches L (Row_Height (row\<lparr>Background_Color := ''pink''\<rparr>)) = Inr h" by simp
    from rows_loop_Cons [OF Inr] rows_loop_Cons [OF this] show ?thesis
      by (simp add: shapes del: rows_loop.simps)
  qed
next
  show "\<forall>slide' top' cs' st' n'.
            rows_loop L colors yp tgw mss (row # rest) (slide, current_top, cs, st, n) =
              Inr (slide', top', cs', st', n') \<longrightarrow>
            (\<exists>h. Inches L (Row_Height row) = Inr h \<and>
               Rectangle left_margin current_top (tgw + Inches_1_0) h (Some (pink colors)) None
                 \<in> set slide')"
  proof (intro allI impI)
    fix slide' top' cs' st' n'
    assume run: "rows_loop L colors yp tgw mss (row # rest) (slide, current_top, cs, st, n) =
              Inr (slide', top', cs', st', n')"
    then obtain h where h: "Inches L (Row_Height row) = Inr h"
      by (cases "Inches L (Row_Height row)")
         (simp_all add: rows_loop_Cons_fails del: rows_loop.simps)
    obtain s1 cs1 st1 n1 where
      hs: "handle_stc colors (STC_Label row) h current_top (slide, cs, st, n) = (s1, cs1, st1, n1)"
      by (metis prod_cases4)
    from run hs obtain s2 where
      ml: "milestones_loop L colors yp current_top (filter (\<lambda>ms. ms_Row_ID ms = Row_ID row) mss)
            (s1 @ row_shapes colors yp tgw current_top h row) = Inr s2" and
      rl: "rows_loop L colors yp tgw mss rest (s2, current_top + h, cs1, st1, n1) =
            Inr (slide', top', cs', st', n')"
      by (auto simp: rows_loop_Cons [OF h] simp del: rows_loop.simps split: sum.splits)
    from rows_loop_cells [OF rl] obtain new3 where s': "slide' = s2 @ new3" by blast
    from milestones_loop_shapes [OF ml] obtain new2 where
      s2: "s2 = (s1 @ row_shapes colors yp tgw current_top h row) @ new2" by blast
    have "Rectangle left_margin current_top (tgw + Inches_1_0) h (Some (pink colors)) None
        \<in> set slide'"
      using s' s2 bg_color_unknown [OF assms, of colors] by (simp add: row_shapes_def)
    with h show "\<exists>h. Inches L (Row_Height row) = Inr h \<and>
        Rectangle left_margin current_top (tgw + Inches_1_0) h (Some (pink colors)) None
          \<in> set slide'"
      by blast
  qed
qed

text \<open>
  The row with the colour \<open>Teal\<close>, 2 inches high, drawn at 2057400 EMU with
  the default colours, whose pink is \<open>FFE0E0\<close>.
\<close>

theorem unknown_background_is_pink_witness:
  "lower (Background_Color teal_row) \<notin> {''pink'', ''purple'', ''yellow''} \<and>
   (\<exists>slide' top' cs' st' n'.
      rows_loop whole_inches default_colors
        (year_positions_of whole_inches default_colors demo_timeline) 3657600 [ms_2031]
        (teal_row # []) ([], 2057400, None, 2057400, 0) = Inr (slide', top', cs', st', n') \<and>
      Rectangle left_margin 2057400 (3657600 + Inches_1_0) 1828800 (Some (0xFF, 0xE0, 0xE0)) None
        \<in> set slide')"
proof -
  let ?yp = "year_positions_of whole_inches default_colors demo_timeline"
  have unknown: "lower (Background_Color teal_row) \<notin> {''pink'', ''purple'', ''yellow''}"
    by code_simp
  have conv: "map (\<lambda>e. Inches whole_inches (Width e)) demo_timeline =
      map Inr [914400, 914400, 1828800]"
    by (simp add: demo_timeline_def whole_inches_def)
  have "demo_timeline \<noteq> []" by (simp add: demo_timeline_def)
  with conv have ne: "?yp \<noteq> []" by (rule year_positions_nonempty)
  have heights: "\<forall>r \<in> set [teal_row]. \<exists>h. Inches whole_inches (Row_Height r) = Inr h"
    by (simp add: whole_inches_def)
  have offs: "\<forall>m \<in> set [ms_2031]. \<exists>v. Inches whole_inches (Vertical_Offset m) = Inr v"
    by (simp add: whole_inches_def)
  from rows_loop_ok [OF ne heights offs] obtain st2 where
    "rows_loop whole_inches default_colors ?yp 3657600 [ms_2031] (teal_row # [])
       ([], 2057400, None, 2057400, 0) = Inr st2"
    by blast
  then obtain slide' top' cs' st' n' where
    run: "rows_loop whole_inches default_colors ?yp 3657600 [ms_2031] (teal_row # [])
       ([], 2057400, None, 2057400, 0) = Inr (slide', top', cs', st', n')"
    by (cases st2) auto
  have height: "Inches whole_inches (Row_Height teal_row) = Inr 1828800"
    by (simp add: teal_row_def whole_inches_def)
  have pink: "pink default_colors = (0xFF, 0xE0, 0xE0)"
    by (simp add: default_colors_def)
  from unknown_background_is_pink [OF unknown, where L = whole_inches
      and colors = default_colors and yp = ?yp and tgw = 3657600 and mss = "[ms_2031]"
      and rest = "[]" and slide = "[]" and current_top = 2057400 and cs = None
      and st = 2057400 and n = 0, THEN conjunct2, rule_format, OF run]
  obtain h where "Inches whole_inches (Row_Height teal_row) = Inr h"
    "Rectangle left_margin 2057400 (3657600 + Inches_1_0) h (Some (pink default_colors)) None
       \<in> set slide'"
    by blast
  with height pink
  have "Rectangle left_margin 2057400 (3657600 + Inches_1_0) 1828800 (Some (0xFF, 0xE0, 0xE0))
      None \<in> set slide'"
    by simp
  with run have "\<exists>slide' top' cs' st' n'.
      rows_loop whole_inches default_colors ?yp 3657600 [ms_2031] (teal_row # [])
        ([], 2057400, None, 2057400, 0) = Inr (slide', top', cs', st', n') \<and>
      Rectangle left_margin 2057400 (3657600 + Inches_1_0) 1828800 (Some (0xFF, 0xE0, 0xE0)) None
        \<in> set slide'"
    by (intro exI conjI)
  with unknown show ?thesis by (intro conjI)
qed

end
